theory Spec2Isabelle
  imports Complex_Main
begin

section \<open>pyvisa.resources.resource: the Resource session wrapper\<close>

text \<open>
  A shallow embedding of \<^verbatim>\<open>src/pyvisa/resources/resource.py\<close>. The class
  \<^verbatim>\<open>Resource\<close> wraps one session handle and forwards every operation to the
  VISA library object \<^verbatim>\<open>self.visalib\<close> and to its resource manager. Neither of
  the two is part of the file, so both are parameters of the model: a record of
  functions over an arbitrary library state \<open>'w\<close>. Every call of the library is also
  appended to a trace, so that what the wrapper forwards can be stated.
\<close>

subsection \<open>Python values\<close>

text \<open>
  Numbers as the timeout setter can receive them: an unbounded \<^verbatim>\<open>int\<close>, a finite
  \<^verbatim>\<open>float\<close> (every finite double is a rational, so it is read as the real it
  denotes; the setter only compares and truncates it, both exact in Python), and the
  three special floats.
\<close>

datatype pynum = PyInt int | PyFloat real | PyNaN | PyPosInf | PyNegInf

text \<open>
  Values. A byte string (\<^verbatim>\<open>bytes\<close>; Python 2's \<^verbatim>\<open>str\<close>) is a list of 8-bit
  characters, a text string (\<^verbatim>\<open>str\<close>; Python 2's \<^verbatim>\<open>unicode\<close>) a list of code
  points.
\<close>

datatype pyval =
    PyNone | PyNum pynum | PyStr string | PyUnicode "nat list" | PyTuple "pyval list" | PyObj nat

text \<open>
  Exceptions. \<^verbatim>\<open>errors.VisaIOError\<close> carries its \<^verbatim>\<open>error_code\<close>; the others
  are Python's own; \<open>OtherException\<close> is any further exception a collaborator or a
  subclass's hook may raise.
\<close>

datatype exn =
    VisaIOError int
  | ValueError string
  | OverflowError string
  | AttributeError string
  | OtherException string

datatype access_mode = no_lock | exclusive_lock | shared_lock

type_synonym handle = nat

subsection \<open>The constants module\<close>

text \<open>
  \<^verbatim>\<open>pyvisa.constants\<close> is not part of the file. The six constants the class reads
  are taken as a parameter \<open>K\<close> of every operation that uses one.
\<close>

record constants =
  VI_TMO_INFINITE :: int
  VI_ATTR_TMO_VALUE :: int
  VI_ATTR_RSRC_CLASS :: int
  VI_SUCCESS_DEV_NPRESENT :: int
  VI_ERROR_NSUP_ATTR :: int
  VI_ERROR_NLISTENERS :: int

subsection \<open>The library, the resource manager and the clock\<close>

text \<open>
  The calls the class makes, with the arguments it passes. A session argument is a
  \<open>handle option\<close>: the class passes \<^verbatim>\<open>self.session\<close> as it is, and that is
  \<^verbatim>\<open>None\<close> before \<^verbatim>\<open>open\<close> and after \<^verbatim>\<open>close\<close>.
\<close>

datatype call =
    OpenBareResource string access_mode pyval
  | Close "handle option"
  | Clear "handle option"
  | GetAttribute "handle option" int
  | SetAttribute "handle option" int pyval
  | Lock "handle option" access_mode pyval pyval
  | Unlock "handle option"
  | InstallHandler "handle option" pyval pyval pyval
  | UninstallHandler "handle option" pyval pyval pyval
  | GetLastStatus "handle option"
  | Time
  | Sleep real

text \<open>
  What each call answers: an exception or a result, and the library's next state. The
  result types are those of the interface the class relies on: a pair (value, status)
  where the class takes \<^verbatim>\<open>[0]\<close>, a tuple where it slices, a status where it
  ignores the result. \<^verbatim>\<open>time.time\<close> and \<^verbatim>\<open>time.sleep\<close> are part of the same
  environment.
\<close>

record 'w visalib =
  vl_open_bare_resource :: "string \<Rightarrow> access_mode \<Rightarrow> pyval \<Rightarrow> 'w \<Rightarrow> (exn + handle \<times> int) \<times> 'w"
  vl_close :: "handle option \<Rightarrow> 'w \<Rightarrow> (exn + int) \<times> 'w"
  vl_clear :: "handle option \<Rightarrow> 'w \<Rightarrow> (exn + int) \<times> 'w"
  vl_get_attribute :: "handle option \<Rightarrow> int \<Rightarrow> 'w \<Rightarrow> (exn + pyval \<times> int) \<times> 'w"
  vl_set_attribute :: "handle option \<Rightarrow> int \<Rightarrow> pyval \<Rightarrow> 'w \<Rightarrow> (exn + int) \<times> 'w"
  vl_lock :: "handle option \<Rightarrow> access_mode \<Rightarrow> pyval \<Rightarrow> pyval \<Rightarrow> 'w \<Rightarrow> (exn + pyval \<times> int) \<times> 'w"
  vl_unlock :: "handle option \<Rightarrow> 'w \<Rightarrow> (exn + int) \<times> 'w"
  vl_install_handler :: "handle option \<Rightarrow> pyval \<Rightarrow> pyval \<Rightarrow> pyval \<Rightarrow> 'w \<Rightarrow> (exn + pyval list) \<times> 'w"
  vl_uninstall_handler :: "handle option \<Rightarrow> pyval \<Rightarrow> pyval \<Rightarrow> pyval \<Rightarrow> 'w \<Rightarrow> (exn + int) \<times> 'w"
  vl_get_last_status :: "handle option \<Rightarrow> 'w \<Rightarrow> (exn + int) \<times> 'w"
  time_time :: "'w \<Rightarrow> real \<times> 'w"
  time_sleep :: "real \<Rightarrow> 'w \<Rightarrow> 'w"

subsection \<open>The Resource object\<close>

text \<open>
  The fields of a \<^verbatim>\<open>Resource\<close>: \<open>session\<close> (\<^verbatim>\<open>self.session\<close>),
  \<open>resource_name\<close> (\<^verbatim>\<open>self._resource_name\<close>) and \<open>logging_extra_session\<close>
  (\<^verbatim>\<open>self._logging_extra['session']\<close>); the session of its resource manager
  (\<^verbatim>\<open>self._resource_manager.session\<close>); the state of the library; and the trace
  of the calls made so far.
\<close>

record 'w resource =
  session :: "handle option"
  resource_name :: string
  logging_extra_session :: "handle option"
  rm_session :: "handle option"
  world :: 'w
  trace :: "call list"

text \<open>\<^verbatim>\<open>__init__\<close>: a resource is constructed unopened.\<close>

definition init :: "handle option \<Rightarrow> string \<Rightarrow> 'w \<Rightarrow> 'w resource" where
  "init rm name w =
     \<lparr>session = None, resource_name = name, logging_extra_session = None,
      rm_session = rm, world = w, trace = []\<rparr>"

text \<open>One call of the library: run it on the library state and record it.\<close>

definition invoke :: "call \<Rightarrow> ('w \<Rightarrow> 'a \<times> 'w) \<Rightarrow> 'w resource \<Rightarrow> 'a \<times> 'w resource" where
  "invoke c f r =
     (case f (world r) of (a, w') \<Rightarrow> (a, r\<lparr>world := w', trace := trace r @ [c]\<rparr>))"

subsection \<open>Attribute access\<close>

text \<open>\<^verbatim>\<open>return self.visalib.get_attribute(self.session, name)[0]\<close>\<close>

definition get_visa_attribute :: "'w visalib \<Rightarrow> int \<Rightarrow> 'w resource \<Rightarrow> (exn + pyval) \<times> 'w resource" where
  "get_visa_attribute vl name r =
     (case invoke (GetAttribute (session r) name) (vl_get_attribute vl (session r) name) r of
        (Inl e, r') \<Rightarrow> (Inl e, r')
      | (Inr res, r') \<Rightarrow> (Inr (fst res), r'))"

text \<open>\<^verbatim>\<open>self.visalib.set_attribute(self.session, name, state)\<close>\<close>

definition set_visa_attribute :: "'w visalib \<Rightarrow> int \<Rightarrow> pyval \<Rightarrow> 'w resource \<Rightarrow> (exn + unit) \<times> 'w resource" where
  "set_visa_attribute vl name state r =
     (case invoke (SetAttribute (session r) name state) (vl_set_attribute vl (session r) name state) r of
        (Inl e, r') \<Rightarrow> (Inl e, r')
      | (Inr _, r') \<Rightarrow> (Inr (), r'))"

text \<open>\<^verbatim>\<open>self.visalib.clear(self.session)\<close>\<close>

definition clear :: "'w visalib \<Rightarrow> 'w resource \<Rightarrow> (exn + unit) \<times> 'w resource" where
  "clear vl r =
     (case invoke (Clear (session r)) (vl_clear vl (session r)) r of
        (Inl e, r') \<Rightarrow> (Inl e, r')
      | (Inr _, r') \<Rightarrow> (Inr (), r'))"

text \<open>\<^verbatim>\<open>self.visalib.unlock(self.session)\<close>\<close>

definition unlock :: "'w visalib \<Rightarrow> 'w resource \<Rightarrow> (exn + unit) \<times> 'w resource" where
  "unlock vl r =
     (case invoke (Unlock (session r)) (vl_unlock vl (session r)) r of
        (Inl e, r') \<Rightarrow> (Inl e, r')
      | (Inr _, r') \<Rightarrow> (Inr (), r'))"

text \<open>\<^verbatim>\<open>last_status\<close>\<close>

definition last_status :: "'w visalib \<Rightarrow> 'w resource \<Rightarrow> (exn + int) \<times> 'w resource" where
  "last_status vl r = invoke (GetLastStatus (session r)) (vl_get_last_status vl (session r)) r"

subsection \<open>The timeout property\<close>

text \<open>
  \<^verbatim>\<open>timeout == constants.VI_TMO_INFINITE\<close>: Python's equality of a value with an
  \<^verbatim>\<open>int\<close> constant. An \<^verbatim>\<open>int\<close> and a \<^verbatim>\<open>float\<close> are equal when they denote the
  same number; NaN, the infinities and values that are not numbers are unequal to it.
\<close>

fun py_eq_int :: "pyval \<Rightarrow> int \<Rightarrow> bool" where
  "py_eq_int (PyNum (PyInt n)) c = (n = c)"
| "py_eq_int (PyNum (PyFloat x)) c = (x = of_int c)"
| "py_eq_int _ c = False"

text \<open>The getter:
  \<^verbatim>\<open>
  timeout = self.get_visa_attribute(constants.VI_ATTR_TMO_VALUE)
  if timeout == constants.VI_TMO_INFINITE:
      return float('+nan')
  return timeout
  \<close>\<close>

definition timeout :: "constants \<Rightarrow> 'w visalib \<Rightarrow> 'w resource \<Rightarrow> (exn + pyval) \<times> 'w resource" where
  "timeout K vl r =
     (case get_visa_attribute vl (VI_ATTR_TMO_VALUE K) r of
        (Inl e, r') \<Rightarrow> (Inl e, r')
      | (Inr v, r') \<Rightarrow>
          if py_eq_int v (VI_TMO_INFINITE K) then (Inr (PyNum PyNaN), r') else (Inr v, r'))"

text \<open>\<^verbatim>\<open>timeout < 0\<close>\<close>

fun py_lt_zero :: "pynum \<Rightarrow> bool" where
  "py_lt_zero (PyInt n) = (n < 0)"
| "py_lt_zero (PyFloat x) = (x < 0)"
| "py_lt_zero PyNaN = False"
| "py_lt_zero PyPosInf = False"
| "py_lt_zero PyNegInf = True"

text \<open>
  \<^verbatim>\<open>math.isnan(timeout)\<close> converts its argument to a double first. For an
  \<^verbatim>\<open>int\<close> that rounds (to nearest, ties to even) to \<open>2 ^ 1024\<close> or more, that is
  from \<open>2 ^ 1024 - 2 ^ 970\<close> on, the conversion raises
  \<^verbatim>\<open>OverflowError: int too large to convert to float\<close>.
\<close>

definition float_overflows :: "int \<Rightarrow> bool" where
  "float_overflows n = (2 ^ 1024 - 2 ^ 970 \<le> \<bar>n\<bar>)"

fun math_isnan :: "pynum \<Rightarrow> exn + bool" where
  "math_isnan (PyInt n) =
     (if float_overflows n then Inl (OverflowError ''int too large to convert to float'')
      else Inr False)"
| "math_isnan (PyFloat x) = Inr False"
| "math_isnan PyNaN = Inr True"
| "math_isnan PyPosInf = Inr False"
| "math_isnan PyNegInf = Inr False"

text \<open>\<^verbatim>\<open>0 <= timeout <= 4294967294\<close>\<close>

fun in_timeout_range :: "pynum \<Rightarrow> bool" where
  "in_timeout_range (PyInt n) = (0 \<le> n \<and> n \<le> 4294967294)"
| "in_timeout_range (PyFloat x) = (0 \<le> x \<and> x \<le> 4294967294)"
| "in_timeout_range PyNaN = False"
| "in_timeout_range PyPosInf = False"
| "in_timeout_range PyNegInf = False"

text \<open>
  \<^verbatim>\<open>int(timeout)\<close>: the identity on an \<^verbatim>\<open>int\<close>, truncation towards zero on a
  finite \<^verbatim>\<open>float\<close>, an exception on the special floats.
\<close>

fun py_int :: "pynum \<Rightarrow> exn + int" where
  "py_int (PyInt n) = Inr n"
| "py_int (PyFloat x) = Inr (if 0 \<le> x then \<lfloor>x\<rfloor> else \<lceil>x\<rceil>)"
| "py_int PyNaN = Inl (ValueError ''cannot convert float NaN to integer'')"
| "py_int PyPosInf = Inl (OverflowError ''cannot convert float infinity to integer'')"
| "py_int PyNegInf = Inl (OverflowError ''cannot convert float infinity to integer'')"

text \<open>The setter:
  \<^verbatim>\<open>
  if timeout < 0 or math.isnan(timeout):
      timeout = constants.VI_TMO_INFINITE
  elif not (0 <= timeout <= 4294967294):
      raise ValueError("timeout value is invalid")
  else:
      timeout = int(timeout)
  self.set_visa_attribute(constants.VI_ATTR_TMO_VALUE, timeout)
  \<close>
  \<^verbatim>\<open>or\<close> evaluates \<^verbatim>\<open>math.isnan\<close> only when the comparison is false.\<close>

definition timeout_setter :: "constants \<Rightarrow> 'w visalib \<Rightarrow> pynum \<Rightarrow> 'w resource \<Rightarrow> (exn + unit) \<times> 'w resource" where
  "timeout_setter K vl t r =
     (if py_lt_zero t
      then set_visa_attribute vl (VI_ATTR_TMO_VALUE K) (PyNum (PyInt (VI_TMO_INFINITE K))) r
      else
        (case math_isnan t of
           Inl e \<Rightarrow> (Inl e, r)
         | Inr True \<Rightarrow>
             set_visa_attribute vl (VI_ATTR_TMO_VALUE K) (PyNum (PyInt (VI_TMO_INFINITE K))) r
         | Inr False \<Rightarrow>
             if \<not> in_timeout_range t then (Inl (ValueError ''timeout value is invalid''), r)
             else
               (case py_int t of
                  Inl e \<Rightarrow> (Inl e, r)
                | Inr n \<Rightarrow> set_visa_attribute vl (VI_ATTR_TMO_VALUE K) (PyNum (PyInt n)) r)))"

subsection \<open>The resource class\<close>

text \<open>
  \<^verbatim>\<open>bytes.upper\<close>: the letters a to z of ASCII become A to Z, every other byte is
  kept.
\<close>

definition upper_char :: "char \<Rightarrow> char" where
  "upper_char c =
     (if (97::nat) \<le> of_char c \<and> of_char c \<le> (122::nat)
      then char_of (of_char c - (32::nat)) else c)"

definition str_upper :: "string \<Rightarrow> string" where
  "str_upper s = map upper_char s"

text \<open>
  \<^verbatim>\<open>str.upper\<close> on a text string replaces each character, whatever stands next to
  it, by its full upper-case mapping, which may be several characters (U+00DF becomes
  \<^verbatim>\<open>SS\<close>). On ASCII that is a to z becoming A to Z. For the code points from 128
  on the mapping is the table of the Unicode database that the Python runtime carries;
  it is the parameter \<open>U\<close>.
\<close>

definition upper_code_point :: "(nat \<Rightarrow> nat list) \<Rightarrow> nat \<Rightarrow> nat list" where
  "upper_code_point U c =
     (if 97 \<le> c \<and> c \<le> 122 then [c - 32] else if c < 128 then [c] else U c)"

definition unicode_upper :: "(nat \<Rightarrow> nat list) \<Rightarrow> nat list \<Rightarrow> nat list" where
  "unicode_upper U s = concat (map (upper_code_point U) s)"

text \<open>\<^verbatim>\<open>value.upper()\<close>: a method of the two kinds of strings only.\<close>

fun py_upper :: "(nat \<Rightarrow> nat list) \<Rightarrow> pyval \<Rightarrow> exn + pyval" where
  "py_upper U (PyUnicode s) = Inr (PyUnicode (unicode_upper U s))"
| "py_upper U (PyStr s) = Inr (PyStr (str_upper s))"
| "py_upper U _ = Inl (AttributeError ''upper'')"

text \<open>
  The text string \<^verbatim>\<open>'Unknown'\<close> (the file imports \<^verbatim>\<open>unicode_literals\<close>), as code
  points.
\<close>

definition Unknown :: "nat list" where
  "Unknown = map of_char ''Unknown''"

text \<open>
  \<^verbatim>\<open>
  try:
      return self.get_visa_attribute(constants.VI_ATTR_RSRC_CLASS).upper()
  except errors.VisaIOError as error:
      if error.error_code != constants.VI_ERROR_NSUP_ATTR:
          raise
  return 'Unknown'
  \<close>\<close>

definition resource_class ::
  "constants \<Rightarrow> (nat \<Rightarrow> nat list) \<Rightarrow> 'w visalib \<Rightarrow> 'w resource \<Rightarrow> (exn + pyval) \<times> 'w resource" where
  "resource_class K U vl r =
     (case get_visa_attribute vl (VI_ATTR_RSRC_CLASS K) r of
        (Inr v, r') \<Rightarrow> (py_upper U v, r')
      | (Inl e, r') \<Rightarrow>
          (case e of
             VisaIOError code \<Rightarrow>
               if code \<noteq> VI_ERROR_NSUP_ATTR K then (Inl e, r') else (Inr (PyUnicode Unknown), r')
           | _ \<Rightarrow> (Inl e, r')))"

subsection \<open>Opening and closing\<close>

text \<open>
  \<^verbatim>\<open>time.time()\<close> and \<^verbatim>\<open>time.sleep(d)\<close>, as calls of the environment. A reading
  of the clock is a finite double, given as the real it denotes.
\<close>

definition time_now :: "'w visalib \<Rightarrow> 'w resource \<Rightarrow> real \<times> 'w resource" where
  "time_now vl r = invoke Time (time_time vl) r"

definition sleep :: "'w visalib \<Rightarrow> real \<Rightarrow> 'w resource \<Rightarrow> 'w resource" where
  "sleep vl d r = snd (invoke (Sleep d) (\<lambda>w. ((), time_sleep vl d w)) r)"

text \<open>
  The subtraction of two doubles, \<^verbatim>\<open>time.time() - start_time\<close>: the exact difference
  rounded to the nearest double, ties to the even mantissa (IEEE 754 binary64: 53
  bits, spacing \<open>2 ^ (e - 52)\<close> between \<open>2 ^ e\<close> and \<open>2 ^ (e + 1)\<close>, and
  \<open>2 ^ (- 1074)\<close> below \<open>2 ^ (- 1022)\<close>); a result that rounds to \<open>2 ^ 1024\<close> or
  beyond is an infinity.
\<close>

definition round_half_even :: "real \<Rightarrow> int" where
  "round_half_even x =
     (if x - of_int \<lfloor>x\<rfloor> < 1 / 2 then \<lfloor>x\<rfloor>
      else if 1 / 2 < x - of_int \<lfloor>x\<rfloor> then \<lfloor>x\<rfloor> + 1
      else if even \<lfloor>x\<rfloor> then \<lfloor>x\<rfloor> else \<lfloor>x\<rfloor> + 1)"

definition double_ulp :: "real \<Rightarrow> real" where
  "double_ulp x = 2 powr (of_int (max (- 1022) \<lfloor>log 2 \<bar>x\<bar>\<rfloor>) - 52)"

definition double_round :: "real \<Rightarrow> real" where
  "double_round x =
     (if x = 0 then 0 else of_int (round_half_even (x / double_ulp x)) * double_ulp x)"

definition float_sub :: "real \<Rightarrow> real \<Rightarrow> pynum" where
  "float_sub a b =
     (let x = double_round (a - b) in
      if 2 ^ 1024 \<le> x then PyPosInf
      else if x \<le> - (2 ^ 1024) then PyNegInf
      else PyFloat x)"

text \<open>\<^verbatim>\<open>x < c\<close> for an \<^verbatim>\<open>int\<close> \<open>c\<close>: Python compares a float and an int exactly.\<close>

fun py_lt_int :: "pynum \<Rightarrow> int \<Rightarrow> bool" where
  "py_lt_int (PyInt n) c = (n < c)"
| "py_lt_int (PyFloat x) c = (x < of_int c)"
| "py_lt_int PyNaN c = False"
| "py_lt_int PyPosInf c = False"
| "py_lt_int PyNegInf c = True"

text \<open>
  \<^verbatim>\<open>sleep_time = 0.1\<close>: the literal is the double nearest to one tenth,
  \<open>3602879701896397 / 2 ^ 55\<close>. \<^verbatim>\<open>try_time = 5\<close> is an \<^verbatim>\<open>int\<close>.
\<close>

definition sleep_time :: real where
  "sleep_time = 3602879701896397 / 2 ^ 55"

definition try_time :: int where
  "try_time = 5"

text \<open>
  The polling loop of \<^verbatim>\<open>open\<close>:
  \<^verbatim>\<open>
  while time.time() - start_time < try_time:
      time.sleep(sleep_time)
      try:
          self.clear()
          break
      except errors.VisaIOError as error:
          if error.error_code != constants.VI_ERROR_NLISTENERS:
              raise
  \<close>
  The clock belongs to the environment, so nothing in the code bounds the number of
  iterations: the loop is a partial function, and \<open>None\<close> is a run that never ends.
\<close>

partial_function (option) retry_loop ::
  "constants \<Rightarrow> 'w visalib \<Rightarrow> real \<Rightarrow> 'w resource \<Rightarrow> ((exn + unit) \<times> 'w resource) option" where
  "retry_loop K vl start_time r =
     (case time_now vl r of
        (now, r1) \<Rightarrow>
          if py_lt_int (float_sub now start_time) try_time then
            (case clear vl (sleep vl sleep_time r1) of
               (Inr u, r3) \<Rightarrow> Some (Inr (), r3)
             | (Inl e, r3) \<Rightarrow>
                 (case e of
                    VisaIOError code \<Rightarrow>
                      if code \<noteq> VI_ERROR_NLISTENERS K then Some (Inl e, r3)
                      else retry_loop K vl start_time r3
                  | _ \<Rightarrow> Some (Inl e, r3)))
          else Some (Inr (), r1))"

text \<open>
  Modelled from the spec: \<^verbatim>\<open>visalib.ignore_warning\<close> is a context manager of the
  library and not part of the file. By the spec the warning status is tolerated, not
  treated as an error, for the duration of the call: the block under \<^verbatim>\<open>with\<close> runs
  as it is written, and what it returns or raises passes through.
\<close>

definition ignore_warning :: "int \<Rightarrow> 'a \<Rightarrow> 'a" where
  "ignore_warning status block = block"

text \<open>
  \<^verbatim>\<open>open(access_mode, open_timeout)\<close>:
  \<^verbatim>\<open>
  with self.visalib.ignore_warning(constants.VI_SUCCESS_DEV_NPRESENT):
      self.session, status = self._resource_manager.open_bare_resource(
          self._resource_name, access_mode, open_timeout)
      if status == constants.VI_SUCCESS_DEV_NPRESENT:
          start_time = time.time()
          (the polling loop)
  self._logging_extra['session'] = self.session
  \<close>
  The assignment to \<^verbatim>\<open>self.session\<close> comes before the loop and the update of
  \<^verbatim>\<open>_logging_extra\<close> after the block, so an exception of the loop leaves the first
  done and the second not. The calls of \<^verbatim>\<open>logger.debug\<close> change nothing and are
  left out.
\<close>

definition open_resource ::
  "constants \<Rightarrow> 'w visalib \<Rightarrow> access_mode \<Rightarrow> pyval \<Rightarrow> 'w resource \<Rightarrow> ((exn + unit) \<times> 'w resource) option" where
  "open_resource K vl mode open_timeout r =
     (case ignore_warning (VI_SUCCESS_DEV_NPRESENT K)
             (case invoke (OpenBareResource (resource_name r) mode open_timeout)
                     (vl_open_bare_resource vl (resource_name r) mode open_timeout) r of
                (Inl e, r1) \<Rightarrow> Some (Inl e, r1)
              | (Inr (h, status), r1) \<Rightarrow>
                  (let r2 = r1\<lparr>session := Some h\<rparr> in
                   if status = VI_SUCCESS_DEV_NPRESENT K then
                     (case time_now vl r2 of
                        (start_time, r3) \<Rightarrow> retry_loop K vl start_time r3)
                   else Some (Inr (), r2))) of
        None \<Rightarrow> None
      | Some (Inl e, r4) \<Rightarrow> Some (Inl e, r4)
      | Some (Inr u, r4) \<Rightarrow> Some (Inr (), r4\<lparr>logging_extra_session := session r4\<rparr>))"

text \<open>
  \<^verbatim>\<open>before_close\<close> is a method a subclass overrides; in \<^verbatim>\<open>Resource\<close> itself it is
  \<^verbatim>\<open>pass\<close>. \<^verbatim>\<open>close\<close> takes the hook of the object's class as a parameter.
\<close>

type_synonym 'w hook = "'w resource \<Rightarrow> (exn + unit) \<times> 'w resource"

definition before_close :: "'w hook" where
  "before_close r = (Inr (), r)"

text \<open>The hook of a subclass that raises \<open>e\<close> and changes nothing.\<close>

definition raising_hook :: "exn \<Rightarrow> 'w hook" where
  "raising_hook e r = (Inl e, r)"

text \<open>
  \<^verbatim>\<open>
  if self._resource_manager.session is None or self.session is None:
      return
  self.before_close()
  self.visalib.close(self.session)
  self.session = None
  \<close>\<close>

definition close :: "'w hook \<Rightarrow> 'w visalib \<Rightarrow> 'w resource \<Rightarrow> (exn + unit) \<times> 'w resource" where
  "close hook vl r =
     (if rm_session r = None \<or> session r = None then (Inr (), r)
      else
        (case hook r of
           (Inl e, r1) \<Rightarrow> (Inl e, r1)
         | (Inr u, r1) \<Rightarrow>
             (case invoke (Close (session r1)) (vl_close vl (session r1)) r1 of
                (Inl e, r2) \<Rightarrow> (Inl e, r2)
              | (Inr st, r2) \<Rightarrow> (Inr (), r2\<lparr>session := None\<rparr>))))"

subsection \<open>Event handlers and locks\<close>

text \<open>
  \<^verbatim>\<open>return self.visalib.install_handler(self.session, event_type, handler, user_handle)[:-1]\<close>:
  the slice of a tuple is the tuple without its last element.
\<close>

definition install_handler ::
  "'w visalib \<Rightarrow> pyval \<Rightarrow> pyval \<Rightarrow> pyval \<Rightarrow> 'w resource \<Rightarrow> (exn + pyval) \<times> 'w resource" where
  "install_handler vl event_type handler user_handle r =
     (case invoke (InstallHandler (session r) event_type handler user_handle)
             (vl_install_handler vl (session r) event_type handler user_handle) r of
        (Inl e, r') \<Rightarrow> (Inl e, r')
      | (Inr res, r') \<Rightarrow> (Inr (PyTuple (butlast res)), r'))"

text \<open>\<^verbatim>\<open>self.visalib.uninstall_handler(self.session, event_type, handler, user_handle)\<close>\<close>

definition uninstall_handler ::
  "'w visalib \<Rightarrow> pyval \<Rightarrow> pyval \<Rightarrow> pyval \<Rightarrow> 'w resource \<Rightarrow> (exn + unit) \<times> 'w resource" where
  "uninstall_handler vl event_type handler user_handle r =
     (case invoke (UninstallHandler (session r) event_type handler user_handle)
             (vl_uninstall_handler vl (session r) event_type handler user_handle) r of
        (Inl e, r') \<Rightarrow> (Inl e, r')
      | (Inr _, r') \<Rightarrow> (Inr (), r'))"

text \<open>
  \<^verbatim>\<open>
  timeout = self.timeout if timeout is None else timeout
  return self.visalib.lock(self.session, constants.AccessModes.shared_lock, timeout, requested_key)[0]
  \<close>\<close>

definition lock ::
  "constants \<Rightarrow> 'w visalib \<Rightarrow> pyval \<Rightarrow> pyval \<Rightarrow> 'w resource \<Rightarrow> (exn + pyval) \<times> 'w resource" where
  "lock K vl tmo requested_key r =
     (case (if tmo = PyNone then timeout K vl r else (Inr tmo, r)) of
        (Inl e, r1) \<Rightarrow> (Inl e, r1)
      | (Inr t, r1) \<Rightarrow>
          (case invoke (Lock (session r1) shared_lock t requested_key)
                  (vl_lock vl (session r1) shared_lock t requested_key) r1 of
             (Inl e, r2) \<Rightarrow> (Inl e, r2)
           | (Inr res, r2) \<Rightarrow> (Inr (fst res), r2)))"

subsection \<open>Notions the statements use\<close>

text \<open>The calls a run adds to the trace, and whether one of them is a release.\<close>

definition calls_since :: "'w resource \<Rightarrow> 'w resource \<Rightarrow> call list" where
  "calls_since r r' = drop (length (trace r)) (trace r')"

fun is_close :: "call \<Rightarrow> bool" where
  "is_close (Close h) = True"
| "is_close _ = False"

text \<open>
  A run of the polling loop in which every \<^verbatim>\<open>clear\<close> fails with the error code
  \<^verbatim>\<open>VI_ERROR_NLISTENERS\<close> until the loop test fails, five seconds having
  passed: from the state \<open>r\<close> at the head of the loop to the state \<open>r'\<close> after
  the last reading of the clock.
\<close>

inductive no_listeners_until_timeout ::
  "constants \<Rightarrow> 'w visalib \<Rightarrow> real \<Rightarrow> 'w resource \<Rightarrow> 'w resource \<Rightarrow> bool"
  for K :: constants and vl :: "'w visalib" and start_time :: real where
  elapsed:
    "time_now vl r = (now, r1) \<Longrightarrow> \<not> py_lt_int (float_sub now start_time) try_time \<Longrightarrow>
     no_listeners_until_timeout K vl start_time r r1"
| again:
    "time_now vl r = (now, r1) \<Longrightarrow> py_lt_int (float_sub now start_time) try_time \<Longrightarrow>
     clear vl (sleep vl sleep_time r1) = (Inl (VisaIOError (VI_ERROR_NLISTENERS K)), r3) \<Longrightarrow>
     no_listeners_until_timeout K vl start_time r3 r' \<Longrightarrow>
     no_listeners_until_timeout K vl start_time r r'"

text \<open>
  The runs of the polling loop that end, whichever way: after \<open>n\<close> passes in which
  \<^verbatim>\<open>clear\<close> fails with \<^verbatim>\<open>VI_ERROR_NLISTENERS\<close>, either the loop test fails, or
  \<^verbatim>\<open>clear\<close> succeeds, or \<^verbatim>\<open>clear\<close> raises something else. \<open>retry_run\<close> relates
  the state at the head of the loop to the outcome and the state at the end.
\<close>

inductive retry_run ::
  "constants \<Rightarrow> 'w visalib \<Rightarrow> real \<Rightarrow> 'w resource \<Rightarrow> (exn + unit) \<times> 'w resource \<Rightarrow> bool"
  for K :: constants and vl :: "'w visalib" and start_time :: real where
  run_elapsed:
    "time_now vl r = (now, r1) \<Longrightarrow> \<not> py_lt_int (float_sub now start_time) try_time \<Longrightarrow>
     retry_run K vl start_time r (Inr (), r1)"
| run_cleared:
    "time_now vl r = (now, r1) \<Longrightarrow> py_lt_int (float_sub now start_time) try_time \<Longrightarrow>
     clear vl (sleep vl sleep_time r1) = (Inr (), r3) \<Longrightarrow>
     retry_run K vl start_time r (Inr (), r3)"
| run_raised:
    "time_now vl r = (now, r1) \<Longrightarrow> py_lt_int (float_sub now start_time) try_time \<Longrightarrow>
     clear vl (sleep vl sleep_time r1) = (Inl e, r3) \<Longrightarrow>
     e \<noteq> VisaIOError (VI_ERROR_NLISTENERS K) \<Longrightarrow>
     retry_run K vl start_time r (Inl e, r3)"
| run_again:
    "time_now vl r = (now, r1) \<Longrightarrow> py_lt_int (float_sub now start_time) try_time \<Longrightarrow>
     clear vl (sleep vl sleep_time r1) = (Inl (VisaIOError (VI_ERROR_NLISTENERS K)), r3) \<Longrightarrow>
     retry_run K vl start_time r3 y \<Longrightarrow>
     retry_run K vl start_time r y"

text \<open>
  An upper-case table whose values, from code point 128 on, hold no lower-case ASCII
  letter, as the table of the Unicode database does.
\<close>

definition no_ascii_lower :: "(nat \<Rightarrow> nat list) \<Rightarrow> bool" where
  "no_ascii_lower U =
     (\<forall>c x. 128 \<le> c \<and> x \<in> set (U c) \<longrightarrow> \<not> (97 \<le> x \<and> x \<le> 122))"

text \<open>
  A library that keeps attributes: what \<^verbatim>\<open>set_attribute\<close> stored without an
  error is what \<^verbatim>\<open>get_attribute\<close> answers next, and reading changes nothing.
\<close>

definition attribute_store :: "'w visalib \<Rightarrow> bool" where
  "attribute_store vl =
     (\<forall>h a v w st w'. vl_set_attribute vl h a v w = (Inr st, w') \<longrightarrow>
        (\<exists>st'. vl_get_attribute vl h a w' = (Inr (v, st'), w')))"

subsection \<open>A library to run the operations on\<close>

text \<open>
  The numbers the VISA standard gives the six constants; a sample of the parameter
  \<open>K\<close>, used where a statement is instantiated.
\<close>

definition visa_constants :: constants where
  "visa_constants =
     \<lparr>VI_TMO_INFINITE = 4294967295, VI_ATTR_TMO_VALUE = 1073676314,
      VI_ATTR_RSRC_CLASS = 3221159937, VI_SUCCESS_DEV_NPRESENT = 1073676413,
      VI_ERROR_NSUP_ATTR = - 1073807331, VI_ERROR_NLISTENERS = - 1073807265\<rparr>"

text \<open>
  A small scripted library, used where a statement is instantiated: its clock
  advances by an eighth of a second at each sleep (a sleep may last longer than asked
  for) and by \<open>clear_duration\<close> at each \<^verbatim>\<open>clear\<close>; \<^verbatim>\<open>clear\<close>
  answers from a script and succeeds once the script is used up; attributes are kept
  in an association list, and an attribute never stored is not supported; \<^verbatim>\<open>lock\<close>
  echoes a requested key and makes up one when none is given; \<^verbatim>\<open>install_handler\<close>
  answers the user handle and a status.
\<close>

record stub_world =
  clock :: real
  clear_duration :: real
  clear_answers :: "(exn + int) list"
  open_answer :: "exn + handle \<times> int"
  close_answer :: "exn + int"
  attributes :: "(int \<times> pyval) list"

definition stub_clear :: "stub_world \<Rightarrow> (exn + int) \<times> stub_world" where
  "stub_clear w =
     (case clear_answers w of
        [] \<Rightarrow> (Inr 0, w\<lparr>clock := clock w + clear_duration w\<rparr>)
      | a # as \<Rightarrow> (a, w\<lparr>clock := clock w + clear_duration w, clear_answers := as\<rparr>))"

definition stub_get_attribute :: "int \<Rightarrow> stub_world \<Rightarrow> (exn + pyval \<times> int) \<times> stub_world" where
  "stub_get_attribute a w =
     (case map_of (attributes w) a of
        None \<Rightarrow> (Inl (VisaIOError (VI_ERROR_NSUP_ATTR visa_constants)), w)
      | Some v \<Rightarrow> (Inr (v, 0), w))"

definition stub_visalib :: "stub_world visalib" where
  "stub_visalib =
     \<lparr>vl_open_bare_resource = (\<lambda>name mode tmo w. (open_answer w, w)),
      vl_close = (\<lambda>h w. (close_answer w, w)),
      vl_clear = (\<lambda>h w. stub_clear w),
      vl_get_attribute = (\<lambda>h a w. stub_get_attribute a w),
      vl_set_attribute = (\<lambda>h a v w. (Inr 0, w\<lparr>attributes := (a, v) # attributes w\<rparr>)),
      vl_lock = (\<lambda>h mode tmo key w. (Inr (if key = PyNone then PyStr ''fresh'' else key, 0), w)),
      vl_unlock = (\<lambda>h w. (Inr 0, w)),
      vl_install_handler = (\<lambda>h ev handler user_handle w. (Inr [user_handle, PyNum (PyInt 0)], w)),
      vl_uninstall_handler = (\<lambda>h ev handler user_handle w. (Inr 0, w)),
      vl_get_last_status = (\<lambda>h w. (Inr 0, w)),
      time_time = (\<lambda>w. (clock w, w)),
      time_sleep = (\<lambda>d w. w\<lparr>clock := clock w + 1 / 8\<rparr>)\<rparr>"

text \<open>The same library with an attribute read that fails with the error code \<open>- 1\<close>.\<close>

definition stub_visalib_read_error :: "stub_world visalib" where
  "stub_visalib_read_error =
     stub_visalib\<lparr>vl_get_attribute := (\<lambda>h a w. (Inl (VisaIOError (- 1)), w))\<rparr>"

definition stub_world0 :: stub_world where
  "stub_world0 =
     \<lparr>clock = 0, clear_duration = 0, clear_answers = [],
      open_answer = Inr (7, 0), close_answer = Inr 0, attributes = []\<rparr>"

text \<open>
  The same library when the device is not ready at \<^verbatim>\<open>open\<close>: the status is
  \<^verbatim>\<open>VI_SUCCESS_DEV_NPRESENT\<close>, each \<^verbatim>\<open>clear\<close> takes two and a half seconds
  and answers from the given script.
\<close>

definition stub_not_present :: "(exn + int) list \<Rightarrow> stub_world" where
  "stub_not_present answers =
     stub_world0\<lparr>clear_duration := 5 / 2, clear_answers := answers,
                  open_answer := Inr (7, VI_SUCCESS_DEV_NPRESENT visa_constants)\<rparr>"

text \<open>
  The same library on a clock that shows the double \<^verbatim>\<open>0.1\<close> when \<^verbatim>\<open>open\<close> reads
  the start time and the double \<^verbatim>\<open>5.1\<close>, which is \<open>5742089524897382 / 2 ^ 50\<close>,
  after the first \<^verbatim>\<open>clear\<close>, which finds no listeners.
\<close>

definition five_point_one :: real where
  "five_point_one = 5742089524897382 / 2 ^ 50"

definition stub_at_rounding :: stub_world where
  "stub_at_rounding =
     stub_world0\<lparr>clock := sleep_time, clear_duration := five_point_one - sleep_time - 1 / 8,
                  clear_answers := [Inl (VisaIOError (VI_ERROR_NLISTENERS visa_constants))],
                  open_answer := Inr (7, VI_SUCCESS_DEV_NPRESENT visa_constants)\<rparr>"

text \<open>
  A sample of the upper-case table: U+00E9 becomes U+00C9, U+00DF becomes \<^verbatim>\<open>SS\<close>,
  every other code point is kept.
\<close>

definition sample_upper_table :: "nat \<Rightarrow> nat list" where
  "sample_upper_table c = (if c = 233 then [201] else if c = 223 then [83, 83] else [c])"

text \<open>An unopened resource \<^verbatim>\<open>GPIB::10\<close> of a resource manager with session 1.\<close>

definition stub_resource :: "stub_world \<Rightarrow> stub_world resource" where
  "stub_resource w = init (Some 1) ''GPIB::10'' w"

section \<open>Basic facts\<close>

text \<open>The rounding of a difference of doubles, where it is exact and where it is not.\<close>

lemma round_half_even_of_int [simp]: "round_half_even (of_int m) = m"
  by (simp add: round_half_even_def)

lemma double_ulp_between:
  assumes "2 powr of_int e \<le> \<bar>x\<bar>" and "\<bar>x\<bar> < 2 powr (of_int e + 1)" and "- 1022 \<le> e"
  shows "double_ulp x = 2 powr (of_int e - 52)"
proof -
  have "0 < (2::real) powr of_int e" by simp
  with assms(1) have pos: "0 < \<bar>x\<bar>" by linarith
  have "\<lfloor>log 2 \<bar>x\<bar>\<rfloor> = e"
    using floor_log_eq_powr_iff[of "\<bar>x\<bar>" 2 e] pos assms by simp
  with assms(3) show ?thesis by (simp add: double_ulp_def max_def)
qed

lemma double_round_between:
  assumes "2 powr of_int e \<le> \<bar>x\<bar>" and "\<bar>x\<bar> < 2 powr (of_int e + 1)" and "- 1022 \<le> e"
  shows "double_round x
           = of_int (round_half_even (x / 2 powr (of_int e - 52))) * 2 powr (of_int e - 52)"
proof -
  have "0 < (2::real) powr of_int e" by simp
  with assms(1) have "x \<noteq> 0" by auto
  then show ?thesis by (simp add: double_round_def double_ulp_between[OF assms])
qed

lemma double_round_exact:
  assumes "2 powr of_int e \<le> \<bar>x\<bar>" and "\<bar>x\<bar> < 2 powr (of_int e + 1)" and "- 1022 \<le> e"
    and "x / 2 powr (of_int e - 52) = of_int m"
  shows "double_round x = x"
proof -
  have "double_round x = of_int (round_half_even (of_int m)) * 2 powr (of_int e - 52)"
    using double_round_between[OF assms(1-3)] assms(4) by simp
  also have "\<dots> = x / 2 powr (of_int e - 52) * 2 powr (of_int e - 52)"
    using assms(4) by simp
  also have "\<dots> = x" by simp
  finally show ?thesis .
qed

lemma double_round_0: "double_round 0 = 0"
  by (simp add: double_round_def)

lemma double_round_21_8: "double_round (21 / 8) = 21 / 8"
  by (rule double_round_exact[where e = 1 and m = "21 * 2 ^ 48"])
     (simp_all add: powr_minus powr_numeral field_simps)

lemma double_round_21_4: "double_round (21 / 4) = 21 / 4"
  by (rule double_round_exact[where e = 2 and m = "21 * 2 ^ 48"])
     (simp_all add: powr_minus powr_numeral field_simps)

lemma float_sub_samples:
  "float_sub 0 0 = PyFloat 0" "float_sub (21 / 8) 0 = PyFloat (21 / 8)"
  "float_sub (21 / 4) 0 = PyFloat (21 / 4)"
  by (simp_all add: float_sub_def Let_def double_round_0 double_round_21_8 double_round_21_4)

text \<open>
  \<^verbatim>\<open>5.1 - 0.1 == 5.0\<close>: the two literals are the doubles
  \<open>5742089524897382 / 2 ^ 50\<close> and \<open>3602879701896397 / 2 ^ 55\<close>, their exact
  difference is below 5 and rounds to 5, so at these two readings the loop test fails.
\<close>

lemma float_sub_rounds_up_to_5:
  "float_sub (5742089524897382 / 2 ^ 50) (3602879701896397 / 2 ^ 55) = PyFloat 5"
proof -
  let ?x = "180143985094819827 / 2 ^ 55 :: real"
  have d: "(5742089524897382 / 2 ^ 50 - 3602879701896397 / 2 ^ 55 :: real) = ?x" by simp
  have "double_round ?x
          = of_int (round_half_even (?x / 2 powr (of_int 2 - 52))) * 2 powr (of_int 2 - 52)"
    by (rule double_round_between) (simp_all add: powr_numeral)
  moreover have q: "?x / 2 powr (of_int 2 - 52) = 180143985094819827 / 32"
    by (simp add: powr_minus powr_numeral field_simps)
  moreover have fl: "\<lfloor>180143985094819827 / 32 :: real\<rfloor> = 5629499534213119"
    by (rule floor_unique) simp_all
  then have "round_half_even (180143985094819827 / 32) = 5629499534213120"
    by (simp add: round_half_even_def)
  ultimately have "double_round ?x = 5"
    by (simp add: powr_minus powr_numeral)
  then show ?thesis by (simp add: float_sub_def d Let_def)
qed

lemma float_sub_self: "float_sub x x = PyFloat 0"
  by (simp add: float_sub_def Let_def double_round_0)

lemma float_sub_five_point_one:
  "float_sub five_point_one sleep_time = PyFloat 5"
  unfolding five_point_one_def sleep_time_def by (rule float_sub_rounds_up_to_5)

lemma loop_test_fails_at_rounding:
  "\<not> py_lt_int (float_sub (5742089524897382 / 2 ^ 50) (3602879701896397 / 2 ^ 55)) try_time
   \<and> (5742089524897382 / 2 ^ 50 - 3602879701896397 / 2 ^ 55 :: real) < 5"
proof (rule conjI)
  show "\<not> py_lt_int (float_sub (5742089524897382 / 2 ^ 50) (3602879701896397 / 2 ^ 55)) try_time"
    unfolding float_sub_rounds_up_to_5 by (simp add: try_time_def)
  show "(5742089524897382 / 2 ^ 50 - 3602879701896397 / 2 ^ 55 :: real) < 5" by simp
qed

lemma invoke_eq:
  "invoke c f r = (fst (f (world r)), r\<lparr>world := snd (f (world r)), trace := trace r @ [c]\<rparr>)"
  by (simp add: invoke_def split: prod.splits)

lemma get_visa_attribute_eq:
  "get_visa_attribute vl name r =
     (map_sum id fst (fst (vl_get_attribute vl (session r) name (world r))),
      r\<lparr>world := snd (vl_get_attribute vl (session r) name (world r)),
        trace := trace r @ [GetAttribute (session r) name]\<rparr>)"
  by (simp add: get_visa_attribute_def invoke_eq split: sum.splits)

lemma set_visa_attribute_eq:
  "set_visa_attribute vl name v r =
     (map_sum id (\<lambda>st. ()) (fst (vl_set_attribute vl (session r) name v (world r))),
      r\<lparr>world := snd (vl_set_attribute vl (session r) name v (world r)),
        trace := trace r @ [SetAttribute (session r) name v]\<rparr>)"
  by (simp add: set_visa_attribute_def invoke_eq split: sum.splits)

lemma clear_eq:
  "clear vl r =
     (map_sum id (\<lambda>st. ()) (fst (vl_clear vl (session r) (world r))),
      r\<lparr>world := snd (vl_clear vl (session r) (world r)),
        trace := trace r @ [Clear (session r)]\<rparr>)"
  by (simp add: clear_def invoke_eq split: sum.splits)

lemma unlock_eq:
  "unlock vl r =
     (map_sum id (\<lambda>st. ()) (fst (vl_unlock vl (session r) (world r))),
      r\<lparr>world := snd (vl_unlock vl (session r) (world r)),
        trace := trace r @ [Unlock (session r)]\<rparr>)"
  by (simp add: unlock_def invoke_eq split: sum.splits)

lemma timeout_frame:
  "session (snd (timeout K vl r)) = session r"
  "trace (snd (timeout K vl r)) = trace r @ [GetAttribute (session r) (VI_ATTR_TMO_VALUE K)]"
  "world (snd (timeout K vl r)) = snd (vl_get_attribute vl (session r) (VI_ATTR_TMO_VALUE K) (world r))"
  by (simp_all add: timeout_def get_visa_attribute_eq split: sum.splits)

lemma lock_eq:
  "lock K vl tmo key r =
     (case (if tmo = PyNone then timeout K vl r else (Inr tmo, r)) of
        (Inl e, r1) \<Rightarrow> (Inl e, r1)
      | (Inr t, r1) \<Rightarrow>
          (map_sum id fst (fst (vl_lock vl (session r) shared_lock t key (world r1))),
           r1\<lparr>world := snd (vl_lock vl (session r) shared_lock t key (world r1)),
              trace := trace r1 @ [Lock (session r) shared_lock t key]\<rparr>))"
proof (cases "tmo = PyNone")
  case False
  then show ?thesis by (simp add: lock_def invoke_eq split: sum.splits)
next
  case True
  obtain a r1 where t: "timeout K vl r = (a, r1)" by (cases "timeout K vl r")
  then have "session r1 = session r" using timeout_frame(1)[of K vl r] by simp
  with True t show ?thesis by (simp add: lock_def invoke_eq split: sum.splits)
qed

lemma time_now_frame:
  "session (snd (time_now vl r)) = session r"
  "rm_session (snd (time_now vl r)) = rm_session r"
  "trace (snd (time_now vl r)) = trace r @ [Time]"
  by (simp_all add: time_now_def invoke_eq)

lemma sleep_frame:
  "session (sleep vl d r) = session r"
  "rm_session (sleep vl d r) = rm_session r"
  "trace (sleep vl d r) = trace r @ [Sleep d]"
  by (simp_all add: sleep_def invoke_eq)

lemma clear_frame:
  "session (snd (clear vl r)) = session r"
  "rm_session (snd (clear vl r)) = rm_session r"
  "trace (snd (clear vl r)) = trace r @ [Clear (session r)]"
  by (simp_all add: clear_eq)

text \<open>
  What a run of the polling loop that ends leaves alone: the handle is the one it
  started with, and the calls it made are readings of the clock, sleeps and
  \<^verbatim>\<open>clear\<close>s, no release among them.
\<close>

lemma retry_loop_frame:
  assumes "retry_loop K vl start r = Some y"
  shows "session (snd y) = session r \<and> rm_session (snd y) = rm_session r \<and>
         take (length (trace r)) (trace (snd y)) = trace r \<and>
         filter is_close (calls_since r (snd y)) = []"
  using assms
proof (induct rule: retry_loop.raw_induct[rotated 1, consumes 1])
  case (1 loop K vl start r y)
  obtain now r1 where t: "time_now vl r = (now, r1)"
    by (cases "time_now vl r")
  define r2 where "r2 = sleep vl sleep_time r1"
  obtain res r3 where c: "clear vl r2 = (res, r3)"
    by (cases "clear vl r2")
  have r1: "session r1 = session r" "rm_session r1 = rm_session r" "trace r1 = trace r @ [Time]"
    using t time_now_frame[of vl r] by simp_all
  have r2: "session r2 = session r" "rm_session r2 = rm_session r"
    "trace r2 = trace r @ [Time, Sleep sleep_time]"
    using r1 by (simp_all add: r2_def sleep_frame)
  have r3: "session r3 = session r" "rm_session r3 = rm_session r"
    "trace r3 = trace r @ [Time, Sleep sleep_time, Clear (session r)]"
    using r2 c clear_frame[of vl r2] by simp_all
  show ?case
  proof (cases "py_lt_int (float_sub now start) try_time")
    case False
    with 1(2) t have "y = (Inr (), r1)" by simp
    with r1 show ?thesis by (simp add: calls_since_def)
  next
    case True
    note within = this
    show ?thesis
    proof (cases "res = Inl (VisaIOError (VI_ERROR_NLISTENERS K))")
      case True
      with 1(2) t c within have "loop K vl start r3 = Some y"
        by (simp add: r2_def)
      from 1(1)[OF this] have ih:
        "session (snd y) = session r3" "rm_session (snd y) = rm_session r3"
        "take (length (trace r3)) (trace (snd y)) = trace r3"
        "filter is_close (calls_since r3 (snd y)) = []" by simp_all
      define rest where "rest = calls_since r3 (snd y)"
      from ih(3) have "trace (snd y) = trace r3 @ rest"
        unfolding rest_def calls_since_def by (metis append_take_drop_id)
      then have whole: "trace (snd y) = trace r @ [Time, Sleep sleep_time, Clear (session r)] @ rest"
        using r3(3) by simp
      have "take (length (trace r)) (trace (snd y)) = trace r"
        and "calls_since r (snd y) = [Time, Sleep sleep_time, Clear (session r)] @ rest"
        unfolding calls_since_def whole by simp_all
      moreover have "filter is_close rest = []" using ih(4) by (simp add: rest_def)
      ultimately have "take (length (trace r)) (trace (snd y)) = trace r"
        and "filter is_close (calls_since r (snd y)) = []" by simp_all
      with ih r3 show ?thesis by simp
    next
      case False
      with 1(2) t c within have "y = (res, r3)"
        by (auto simp: r2_def split: sum.splits exn.splits if_splits)
      with r3 show ?thesis by (simp add: calls_since_def)
    qed
  qed
qed

text \<open>One pass through the body of the polling loop, by the outcome of \<^verbatim>\<open>clear\<close>.\<close>

lemma retry_loop_elapsed:
  assumes "time_now vl r = (now, r1)" and "\<not> py_lt_int (float_sub now start) try_time"
  shows "retry_loop K vl start r = Some (Inr (), r1)"
  using assms by (subst retry_loop.simps) simp

lemma retry_loop_cleared:
  assumes "time_now vl r = (now, r1)" and "py_lt_int (float_sub now start) try_time"
    and "clear vl (sleep vl sleep_time r1) = (Inr (), r3)"
  shows "retry_loop K vl start r = Some (Inr (), r3)"
  using assms by (subst retry_loop.simps) simp

lemma retry_loop_no_listeners:
  assumes "time_now vl r = (now, r1)" and "py_lt_int (float_sub now start) try_time"
    and "clear vl (sleep vl sleep_time r1) = (Inl (VisaIOError (VI_ERROR_NLISTENERS K)), r3)"
  shows "retry_loop K vl start r = retry_loop K vl start r3"
  using assms by (subst retry_loop.simps) simp

lemma retry_loop_raises:
  assumes "time_now vl r = (now, r1)" and "py_lt_int (float_sub now start) try_time"
    and "clear vl (sleep vl sleep_time r1) = (Inl e, r3)"
    and "e \<noteq> VisaIOError (VI_ERROR_NLISTENERS K)"
  shows "retry_loop K vl start r = Some (Inl e, r3)"
  using assms by (subst retry_loop.simps) (simp split: exn.splits)

text \<open>
  The loop returns, without an exception, on every run in which \<^verbatim>\<open>clear\<close> fails
  with \<^verbatim>\<open>VI_ERROR_NLISTENERS\<close> until the time is up.
\<close>

lemma retry_loop_gives_up:
  assumes "no_listeners_until_timeout K vl start r r'"
  shows "retry_loop K vl start r = Some (Inr (), r')"
  using assms
proof (induction rule: no_listeners_until_timeout.induct)
  case (elapsed r now r1)
  then show ?case by (rule retry_loop_elapsed)
next
  case (again r now r1 r3 r')
  from again.hyps(1-3) have "retry_loop K vl start r = retry_loop K vl start r3"
    by (rule retry_loop_no_listeners)
  with again.IH show ?case by simp
qed

text \<open>What \<^verbatim>\<open>open\<close> does with the outcome of the loop, once the loop is entered.\<close>

lemma open_resource_not_present:
  assumes "invoke (OpenBareResource (resource_name r) mode tmo)
             (vl_open_bare_resource vl (resource_name r) mode tmo) r
           = (Inr (h, VI_SUCCESS_DEV_NPRESENT K), r1)"
    and "time_now vl (r1\<lparr>session := Some h\<rparr>) = (start, rs)"
  shows "open_resource K vl mode tmo r =
           (case retry_loop K vl start rs of
              None \<Rightarrow> None
            | Some (Inl e, r4) \<Rightarrow> Some (Inl e, r4)
            | Some (Inr u, r4) \<Rightarrow> Some (Inr (), r4\<lparr>logging_extra_session := session r4\<rparr>))"
  using assms by (simp add: open_resource_def ignore_warning_def Let_def)

text \<open>No string in upper case is \<^verbatim>\<open>'Unknown'\<close>: the letter n is not in the range of \<open>upper_char\<close>.\<close>

lemma upper_char_not_n: "upper_char c \<noteq> CHR ''n''"
proof
  assume h: "upper_char c = CHR ''n''"
  show False
  proof (cases "(97::nat) \<le> of_char c \<and> of_char c \<le> (122::nat)")
    case True
    then have "upper_char c = char_of (of_char c - (32::nat))" by (simp add: upper_char_def)
    with h have "(of_char (char_of (of_char c - (32::nat)) :: char) :: nat) = of_char (CHR ''n'')" by simp
    then have m: "(of_char c - (32::nat)) mod 256 = 110" by simp
    from True have "of_char c - (32::nat) < 256" by linarith
    with m have "of_char c - (32::nat) = 110" by simp
    with True show False by linarith
  next
    case False
    then have "upper_char c = c" unfolding upper_char_def by (simp only: if_False)
    with h have "c = CHR ''n''" by simp
    with False show False by simp
  qed
qed

lemma str_upper_not_Unknown: "str_upper s \<noteq> ''Unknown''"
proof
  assume "str_upper s = ''Unknown''"
  then have "CHR ''n'' \<in> set (map upper_char s)" by (simp add: str_upper_def)
  then obtain x where "upper_char x = CHR ''n''" by auto
  then show False using upper_char_not_n by blast
qed

text \<open>The setter and the getter of \<^verbatim>\<open>timeout\<close>, case by case.\<close>

lemma timeout_setter_infinite:
  assumes "py_lt_zero t \<or> t = PyNaN"
  shows "timeout_setter K vl t r
           = set_visa_attribute vl (VI_ATTR_TMO_VALUE K) (PyNum (PyInt (VI_TMO_INFINITE K))) r"
  using assms by (auto simp: timeout_setter_def)

lemma timeout_setter_overflow:
  assumes "\<not> n < 0" and "float_overflows n"
  shows "timeout_setter K vl (PyInt n) r
           = (Inl (OverflowError ''int too large to convert to float''), r)"
  using assms by (simp add: timeout_setter_def)

lemma timeout_setter_invalid:
  assumes "\<not> py_lt_zero t" and "t \<noteq> PyNaN" and "\<not> in_timeout_range t"
    and "\<And>n. t = PyInt n \<Longrightarrow> \<not> float_overflows n"
  shows "timeout_setter K vl t r = (Inl (ValueError ''timeout value is invalid''), r)"
  using assms by (cases t) (simp_all add: timeout_setter_def)

lemma in_timeout_range_no_overflow:
  assumes "in_timeout_range (PyInt n)"
  shows "\<not> float_overflows n"
proof -
  have "(4294967294::int) < 2 ^ 1024 - 2 ^ 970" by simp
  with assms show ?thesis by (simp add: float_overflows_def)
qed

lemma timeout_setter_in_range:
  assumes "in_timeout_range t"
  shows "timeout_setter K vl t r
           = set_visa_attribute vl (VI_ATTR_TMO_VALUE K)
               (PyNum (PyInt (case t of PyInt n \<Rightarrow> n | PyFloat x \<Rightarrow> \<lfloor>x\<rfloor> | _ \<Rightarrow> 0))) r"
proof (cases t)
  case (PyInt n)
  with assms in_timeout_range_no_overflow[of n] show ?thesis
    by (simp add: timeout_setter_def)
next
  case (PyFloat x)
  with assms show ?thesis by (simp add: timeout_setter_def)
qed (use assms in simp_all)

lemma set_visa_attribute_calls:
  "trace (snd (set_visa_attribute vl a v r)) = trace r @ [SetAttribute (session r) a v]"
  by (simp add: set_visa_attribute_eq)

text \<open>
  The setter raises by itself (it returns an exception and has called nothing) in two
  cases only: the \<^verbatim>\<open>ValueError\<close> of the range check, and the
  \<^verbatim>\<open>OverflowError\<close> of \<^verbatim>\<open>math.isnan\<close> on an \<^verbatim>\<open>int\<close> too large for a float.
  On every float, and on every int that converts to a float, the first is raised
  exactly on the inputs that are not negative, not NaN and out of range.
\<close>

lemma timeout_setter_value_error_iff:
  assumes "\<And>n. t = PyInt n \<Longrightarrow> \<not> float_overflows n"
  shows "timeout_setter K vl t r = (Inl (ValueError ''timeout value is invalid''), r)
         \<longleftrightarrow> \<not> py_lt_zero t \<and> t \<noteq> PyNaN \<and> \<not> in_timeout_range t"
proof
  assume "\<not> py_lt_zero t \<and> t \<noteq> PyNaN \<and> \<not> in_timeout_range t"
  with assms show "timeout_setter K vl t r = (Inl (ValueError ''timeout value is invalid''), r)"
    by (simp add: timeout_setter_invalid)
next
  assume raised: "timeout_setter K vl t r = (Inl (ValueError ''timeout value is invalid''), r)"
  show "\<not> py_lt_zero t \<and> t \<noteq> PyNaN \<and> \<not> in_timeout_range t"
  proof (rule ccontr)
    assume "\<not> (\<not> py_lt_zero t \<and> t \<noteq> PyNaN \<and> \<not> in_timeout_range t)"
    then consider "py_lt_zero t \<or> t = PyNaN" | "in_timeout_range t" by blast
    then obtain v where "timeout_setter K vl t r = set_visa_attribute vl (VI_ATTR_TMO_VALUE K) v r"
      using timeout_setter_infinite timeout_setter_in_range by (cases; blast)
    then have "trace (snd (timeout_setter K vl t r)) = trace r @ [SetAttribute (session r) (VI_ATTR_TMO_VALUE K) v]"
      by (simp add: set_visa_attribute_calls)
    with raised show False by simp
  qed
qed

lemma timeout_reads_raw:
  assumes "fst (vl_get_attribute vl (session r) (VI_ATTR_TMO_VALUE K) (world r)) = Inr (v, st)"
  shows "fst (timeout K vl r) = Inr (if py_eq_int v (VI_TMO_INFINITE K) then PyNum PyNaN else v)"
  using assms by (simp add: timeout_def get_visa_attribute_eq)

text \<open>Reading back what the setter stored, on a library that keeps attributes.\<close>

lemma timeout_reads_back:
  assumes store: "attribute_store vl"
    and set: "set_visa_attribute vl (VI_ATTR_TMO_VALUE K) v r = (Inr (), r1)"
  shows "fst (timeout K vl r1) = Inr (if py_eq_int v (VI_TMO_INFINITE K) then PyNum PyNaN else v)"
proof -
  let ?ans = "vl_set_attribute vl (session r) (VI_ATTR_TMO_VALUE K) v (world r)"
  from set have r1: "session r1 = session r" "world r1 = snd ?ans"
    by (auto simp: set_visa_attribute_eq)
  from set obtain st where "fst ?ans = Inr st"
    by (cases "fst ?ans") (auto simp: set_visa_attribute_eq)
  then have "?ans = (Inr st, world r1)" using r1(2) by (simp add: prod_eq_iff)
  with store obtain st' where
    "vl_get_attribute vl (session r) (VI_ATTR_TMO_VALUE K) (world r1) = (Inr (v, st'), world r1)"
    unfolding attribute_store_def by blast
  then have "fst (vl_get_attribute vl (session r1) (VI_ATTR_TMO_VALUE K) (world r1)) = Inr (v, st')"
    using r1(1) by simp
  then show ?thesis by (rule timeout_reads_raw)
qed

lemma stub_keeps_attributes: "attribute_store stub_visalib"
  by (auto simp: attribute_store_def stub_visalib_def stub_get_attribute_def)

text \<open>\<^verbatim>\<open>install_handler\<close> returns a tuple, whatever the library answers.\<close>

lemma install_handler_eq:
  "install_handler vl ev handler uh r =
     (map_sum id (\<lambda>res. PyTuple (butlast res))
        (fst (vl_install_handler vl (session r) ev handler uh (world r))),
      r\<lparr>world := snd (vl_install_handler vl (session r) ev handler uh (world r)),
        trace := trace r @ [InstallHandler (session r) ev handler uh]\<rparr>)"
  by (simp add: install_handler_def invoke_eq split: sum.splits)

lemma install_handler_returns_tuple:
  assumes "fst (install_handler vl ev handler uh r) = Inr v"
  shows "\<exists>xs. v = PyTuple xs"
  using assms
  by (cases "fst (vl_install_handler vl (session r) ev handler uh (world r))")
     (auto simp: install_handler_eq)

text \<open>Every run of the loop that ends, as \<open>retry_run\<close> lists them, is what the loop returns.\<close>

lemma retry_run_returns:
  assumes "retry_run K vl start r y"
  shows "retry_loop K vl start r = Some y"
  using assms
proof (induction rule: retry_run.induct)
  case (run_elapsed r now r1)
  then show ?case by (rule retry_loop_elapsed)
next
  case (run_cleared r now r1 r3)
  then show ?case by (rule retry_loop_cleared)
next
  case (run_raised r now r1 e r3)
  then show ?case by (rule retry_loop_raises)
next
  case (run_again r now r1 r3 y)
  from run_again.hyps(1-3) have "retry_loop K vl start r = retry_loop K vl start r3"
    by (rule retry_loop_no_listeners)
  with run_again.IH show ?case by simp
qed

text \<open>Upper-casing a text string, written out, and what it cannot give.\<close>

lemma unicode_upper_eq:
  "unicode_upper U s
     = concat (map (\<lambda>c. if 97 \<le> c \<and> c \<le> 122 then [c - 32] else if c < 128 then [c] else U c) s)"
  by (simp add: unicode_upper_def upper_code_point_def[abs_def])

lemma str_upper_eq:
  "str_upper b
     = map (\<lambda>c. if (97::nat) \<le> of_char c \<and> of_char c \<le> (122::nat)
                  then char_of (of_char c - (32::nat)) else c) b"
  by (simp add: str_upper_def upper_char_def[abs_def])

lemma unicode_upper_no_lower:
  assumes "no_ascii_lower U" and "x \<in> set (unicode_upper U s)"
  shows "\<not> (97 \<le> x \<and> x \<le> 122)"
proof -
  from assms(2) obtain c where "x \<in> set (upper_code_point U c)"
    by (auto simp: unicode_upper_def)
  then consider "97 \<le> c" "c \<le> 122" "x = c - 32" | "c < 128" "x = c" "\<not> (97 \<le> c \<and> c \<le> 122)"
    | "128 \<le> c" "x \<in> set (U c)"
    by (auto simp: upper_code_point_def split: if_splits)
  then show ?thesis
  proof cases
    case 1
    then show ?thesis by simp
  next
    case 2
    then show ?thesis by simp
  next
    case 3
    with assms(1) show ?thesis unfolding no_ascii_lower_def by blast
  qed
qed

lemma Unknown_has_n: "110 \<in> set Unknown"
  by (simp add: Unknown_def)

lemma unicode_upper_not_Unknown:
  assumes "no_ascii_lower U"
  shows "unicode_upper U s \<noteq> Unknown"
proof
  assume "unicode_upper U s = Unknown"
  with Unknown_has_n have "110 \<in> set (unicode_upper U s)" by simp
  from unicode_upper_no_lower[OF assms this] show False by simp
qed

section \<open>The claims\<close>

text \<open>
  C1, as the code has it. On a resource whose handle and whose resource manager's handle
  are both set, \<^verbatim>\<open>close\<close> runs the hook, then asks the library to release the
  handle, then unsets the handle, and nothing catches an exception on the way: an
  exception of the hook leaves \<^verbatim>\<open>close\<close> before the release is asked for, in the
  state the hook left; an exception of the release leaves \<^verbatim>\<open>close\<close> before the
  handle is unset, so the handle is as it was after the hook, and that is still set
  whenever the hook has left the handle alone, as the hook of \<^verbatim>\<open>Resource\<close> itself
  does; only when both return does \<^verbatim>\<open>close\<close> return, with the handle unset.
\<close>

theorem close_unsets_handle_unless_raised:
  assumes "rm_session r \<noteq> None" and "session r \<noteq> None"
  shows "(hook r = (Inl e, r1) \<longrightarrow> close hook vl r = (Inl e, r1))
    \<and> (hook r = (Inr (), r1) \<and> fst (vl_close vl (session r1) (world r1)) = Inl e \<longrightarrow>
          fst (close hook vl r) = Inl e
          \<and> session (snd (close hook vl r)) = session r1
          \<and> trace (snd (close hook vl r)) = trace r1 @ [Close (session r1)])
    \<and> (hook r = (Inr (), r1) \<and> session r1 = session r
          \<and> fst (vl_close vl (session r1) (world r1)) = Inl e \<longrightarrow>
          fst (close hook vl r) = Inl e
          \<and> session (snd (close hook vl r)) = session r
          \<and> session (snd (close hook vl r)) \<noteq> None)
    \<and> (fst (vl_close vl (session r) (world r)) = Inl e \<longrightarrow>
          fst (close before_close vl r) = Inl e
          \<and> session (snd (close before_close vl r)) = session r
          \<and> session (snd (close before_close vl r)) \<noteq> None)
    \<and> (hook r = (Inr (), r1) \<and> fst (vl_close vl (session r1) (world r1)) = Inr st \<longrightarrow>
          fst (close hook vl r) = Inr ()
          \<and> session (snd (close hook vl r)) = None
          \<and> trace (snd (close hook vl r)) = trace r1 @ [Close (session r1)])"
  using assms by (auto simp: close_def before_close_def invoke_eq)

text \<open>
  The claim as it is written fails on both counts. With the hook of \<^verbatim>\<open>Resource\<close>
  itself and a library whose \<^verbatim>\<open>close\<close> raises, and with a hook that raises, the
  exception leaves \<^verbatim>\<open>close\<close> and the handle is still 7.
\<close>

theorem close_leaves_handle_set_counterexample:
  "rm_session ((stub_resource (stub_world0\<lparr>close_answer := Inl (VisaIOError (- 1))\<rparr>))\<lparr>session := Some 7\<rparr>) = Some 1
   \<and> fst (close before_close stub_visalib
          ((stub_resource (stub_world0\<lparr>close_answer := Inl (VisaIOError (- 1))\<rparr>))\<lparr>session := Some 7\<rparr>))
       = Inl (VisaIOError (- 1))
   \<and> session (snd (close before_close stub_visalib
          ((stub_resource (stub_world0\<lparr>close_answer := Inl (VisaIOError (- 1))\<rparr>))\<lparr>session := Some 7\<rparr>)))
       = Some 7
   \<and> fst (close (raising_hook (OtherException ''hook'')) stub_visalib
          ((stub_resource stub_world0)\<lparr>session := Some 7\<rparr>))
       = Inl (OtherException ''hook'')
   \<and> session (snd (close (raising_hook (OtherException ''hook'')) stub_visalib
          ((stub_resource stub_world0)\<lparr>session := Some 7\<rparr>)))
       = Some 7"
  by (simp add: close_def before_close_def raising_hook_def invoke_eq stub_visalib_def
      stub_resource_def stub_world0_def init_def)

theorem close_unsets_handle_unless_raised_witness:
  "close (raising_hook (OtherException ''hook'')) stub_visalib
      ((stub_resource stub_world0)\<lparr>session := Some 7\<rparr>)
     = (Inl (OtherException ''hook''), (stub_resource stub_world0)\<lparr>session := Some 7\<rparr>)
   \<and> fst (close before_close stub_visalib
          ((stub_resource (stub_world0\<lparr>close_answer := Inl (VisaIOError (- 1))\<rparr>))\<lparr>session := Some 7\<rparr>))
       = Inl (VisaIOError (- 1))
   \<and> session (snd (close before_close stub_visalib
          ((stub_resource (stub_world0\<lparr>close_answer := Inl (VisaIOError (- 1))\<rparr>))\<lparr>session := Some 7\<rparr>)))
       = Some 7
   \<and> trace (snd (close before_close stub_visalib
          ((stub_resource (stub_world0\<lparr>close_answer := Inl (VisaIOError (- 1))\<rparr>))\<lparr>session := Some 7\<rparr>)))
       = [Close (Some 7)]
   \<and> fst (close before_close stub_visalib ((stub_resource stub_world0)\<lparr>session := Some 7\<rparr>)) = Inr ()
   \<and> session (snd (close before_close stub_visalib ((stub_resource stub_world0)\<lparr>session := Some 7\<rparr>)))
       = None
   \<and> trace (snd (close before_close stub_visalib ((stub_resource stub_world0)\<lparr>session := Some 7\<rparr>)))
       = [Close (Some 7)]"
proof -
  let ?r = "(stub_resource stub_world0)\<lparr>session := Some 7\<rparr>"
  let ?rf = "(stub_resource (stub_world0\<lparr>close_answer := Inl (VisaIOError (- 1))\<rparr>))\<lparr>session := Some 7\<rparr>"
  note defs = before_close_def stub_visalib_def stub_resource_def stub_world0_def init_def
  have pre: "rm_session ?r \<noteq> None" "session ?r \<noteq> None" "rm_session ?rf \<noteq> None" "session ?rf \<noteq> None"
    by (simp_all add: stub_resource_def init_def)
  have hook_ok: "before_close ?rf = (Inr (), ?rf)" "session ?rf = session ?rf"
    "before_close ?r = (Inr (), ?r)"
    by (simp_all add: before_close_def)
  have fails: "fst (vl_close stub_visalib (session ?rf) (world ?rf)) = Inl (VisaIOError (- 1))"
    by (simp add: defs)
  have works: "fst (vl_close stub_visalib (session ?r) (world ?r)) = Inr 0"
    by (simp add: defs)
  have a: "close (raising_hook (OtherException ''hook'')) stub_visalib ?r
             = (Inl (OtherException ''hook''), ?r)"
    using close_unsets_handle_unless_raised
      [OF pre(1) pre(2), where hook = "raising_hook (OtherException ''hook'')"
        and e = "OtherException ''hook''" and ?r1.0 = ?r and vl = stub_visalib]
    by (simp add: raising_hook_def)
  note b_inst = close_unsets_handle_unless_raised
      [OF pre(3) pre(4), where hook = before_close and e = "VisaIOError (- 1)" and ?r1.0 = ?rf
        and vl = stub_visalib]
  from b_inst hook_ok(1) fails
  have b1: "fst (close before_close stub_visalib ?rf) = Inl (VisaIOError (- 1))
      \<and> session (snd (close before_close stub_visalib ?rf)) = session ?rf
      \<and> trace (snd (close before_close stub_visalib ?rf)) = trace ?rf @ [Close (session ?rf)]"
    by blast
  from b_inst hook_ok(1) fails
  have b2: "session (snd (close before_close stub_visalib ?rf)) \<noteq> None"
    by blast
  from b_inst fails
  have b3: "session (snd (close before_close stub_visalib ?rf)) = session ?rf"
    by blast
  have c: "fst (close before_close stub_visalib ?r) = Inr ()
      \<and> session (snd (close before_close stub_visalib ?r)) = None
      \<and> trace (snd (close before_close stub_visalib ?r)) = trace ?r @ [Close (session ?r)]"
    using close_unsets_handle_unless_raised
      [OF pre(1) pre(2), where hook = before_close and ?r1.0 = ?r and vl = stub_visalib
        and st = 0] hook_ok(3) works
    by blast
  from a b1 b2 b3 c show ?thesis by (simp add: stub_resource_def init_def)
qed

text \<open>
  C2. After \<^verbatim>\<open>open\<close> has returned without an exception the handle is set. After
  \<^verbatim>\<open>close\<close> has returned without an exception on a resource whose manager's
  session is set, the handle is unset, and a second \<^verbatim>\<open>close\<close> then returns without
  an exception and leaves every field, the library and the trace as they are. So does
  \<^verbatim>\<open>close\<close> on a resource whose handle is unset, and on one whose manager's session
  is unset.
\<close>

theorem open_sets_close_unsets_handle:
  "(open_resource K vl mode tmo r = Some (Inr (), r') \<longrightarrow> session r' \<noteq> None)
   \<and> (rm_session r \<noteq> None \<and> close hook vl r = (Inr (), r') \<longrightarrow>
         session r' = None \<and> close hook vl r' = (Inr (), r'))
   \<and> (session r = None \<longrightarrow> close hook vl r = (Inr (), r))
   \<and> (rm_session r = None \<longrightarrow> close hook vl r = (Inr (), r))"
proof -
  have o: "open_resource K vl mode tmo r = Some (Inr (), r') \<longrightarrow> session r' \<noteq> None"
  proof
    assume h: "open_resource K vl mode tmo r = Some (Inr (), r')"
    show "session r' \<noteq> None"
    proof (cases "fst (vl_open_bare_resource vl (resource_name r) mode tmo (world r))")
      case (Inl e)
      with h show ?thesis by (simp add: open_resource_def ignore_warning_def invoke_eq)
    next
      case (Inr hs)
      obtain hd st where hs: "hs = (hd, st)" by (cases hs)
      show ?thesis
      proof (cases "st = VI_SUCCESS_DEV_NPRESENT K")
        case False
        with h Inr hs show ?thesis by (auto simp: open_resource_def ignore_warning_def invoke_eq Let_def)
      next
        case True
        let ?r2 = "r\<lparr>world := snd (vl_open_bare_resource vl (resource_name r) mode tmo (world r)),
                     trace := trace r @ [OpenBareResource (resource_name r) mode tmo],
                     session := Some hd\<rparr>"
        obtain start r3 where t: "time_now vl ?r2 = (start, r3)" by (cases "time_now vl ?r2")
        then have s3: "session r3 = Some hd" by (auto simp: time_now_def invoke_eq)
        from h Inr hs True t obtain r4 where
          l: "retry_loop K vl start r3 = Some (Inr (), r4)" and
          r': "r' = r4\<lparr>logging_extra_session := session r4\<rparr>"
          by (auto simp: open_resource_def ignore_warning_def invoke_eq Let_def split: option.splits sum.splits)
        from retry_loop_frame[OF l] s3 r' show ?thesis by simp
      qed
    qed
  qed
  have c: "rm_session r \<noteq> None \<and> close hook vl r = (Inr (), r') \<longrightarrow>
         session r' = None \<and> close hook vl r' = (Inr (), r')"
    by (auto simp: close_def invoke_eq split: prod.splits sum.splits)
  have n: "session r = None \<longrightarrow> close hook vl r = (Inr (), r)"
    by (simp add: close_def)
  have m: "rm_session r = None \<longrightarrow> close hook vl r = (Inr (), r)"
    by (simp add: close_def)
  from o c n m show ?thesis by blast
qed

theorem open_sets_close_unsets_handle_witness:
  "open_resource visa_constants stub_visalib no_lock (PyNum (PyInt 5000)) (stub_resource stub_world0)
     = Some (Inr (), (stub_resource stub_world0)
         \<lparr>session := Some 7, logging_extra_session := Some 7,
          trace := [OpenBareResource ''GPIB::10'' no_lock (PyNum (PyInt 5000))]\<rparr>)
   \<and> session ((stub_resource stub_world0)
         \<lparr>session := Some 7, logging_extra_session := Some 7,
          trace := [OpenBareResource ''GPIB::10'' no_lock (PyNum (PyInt 5000))]\<rparr>) \<noteq> None
   \<and> close before_close stub_visalib ((stub_resource stub_world0)
         \<lparr>session := Some 7, logging_extra_session := Some 7,
          trace := [OpenBareResource ''GPIB::10'' no_lock (PyNum (PyInt 5000))]\<rparr>)
     = (Inr (), (stub_resource stub_world0)
         \<lparr>session := None, logging_extra_session := Some 7,
          trace := [OpenBareResource ''GPIB::10'' no_lock (PyNum (PyInt 5000)), Close (Some 7)]\<rparr>)
   \<and> close before_close stub_visalib ((stub_resource stub_world0)
         \<lparr>session := None, logging_extra_session := Some 7,
          trace := [OpenBareResource ''GPIB::10'' no_lock (PyNum (PyInt 5000)), Close (Some 7)]\<rparr>)
     = (Inr (), (stub_resource stub_world0)
         \<lparr>session := None, logging_extra_session := Some 7,
          trace := [OpenBareResource ''GPIB::10'' no_lock (PyNum (PyInt 5000)), Close (Some 7)]\<rparr>)
   \<and> close before_close stub_visalib ((stub_resource stub_world0)\<lparr>session := Some 7, rm_session := None\<rparr>)
     = (Inr (), (stub_resource stub_world0)\<lparr>session := Some 7, rm_session := None\<rparr>)"
proof -
  let ?r0 = "stub_resource stub_world0"
  let ?ro = "?r0\<lparr>session := Some 7, logging_extra_session := Some 7,
          trace := [OpenBareResource ''GPIB::10'' no_lock (PyNum (PyInt 5000))]\<rparr>"
  let ?rc = "?r0\<lparr>session := None, logging_extra_session := Some 7,
          trace := [OpenBareResource ''GPIB::10'' no_lock (PyNum (PyInt 5000)), Close (Some 7)]\<rparr>"
  let ?rn = "?r0\<lparr>session := Some 7, rm_session := None\<rparr>"
  have o: "open_resource visa_constants stub_visalib no_lock (PyNum (PyInt 5000)) ?r0 = Some (Inr (), ?ro)"
    by (simp add: open_resource_def ignore_warning_def invoke_eq stub_visalib_def stub_resource_def stub_world0_def
        init_def visa_constants_def)
  have c: "rm_session ?ro \<noteq> None \<and> close before_close stub_visalib ?ro = (Inr (), ?rc)"
    by (simp add: close_def before_close_def invoke_eq stub_visalib_def stub_resource_def
        stub_world0_def init_def)
  have n: "rm_session ?rn = None"
    by simp
  have "session ?ro \<noteq> None"
    using open_sets_close_unsets_handle
      [of visa_constants stub_visalib no_lock "PyNum (PyInt 5000)" ?r0 ?ro] o by blast
  moreover have "close before_close stub_visalib ?rc = (Inr (), ?rc)"
    using open_sets_close_unsets_handle
      [of visa_constants stub_visalib no_lock "PyNum (PyInt 5000)" ?ro ?rc before_close] c by blast
  moreover have "close before_close stub_visalib ?rn = (Inr (), ?rn)"
    using open_sets_close_unsets_handle
      [of visa_constants stub_visalib no_lock "PyNum (PyInt 5000)" ?rn ?rn before_close] n by blast
  ultimately show ?thesis using o c by simp
qed

text \<open>
  C3. Let \<^verbatim>\<open>open\<close> have received the handle \<open>h\<close> with the status
  \<^verbatim>\<open>VI_SUCCESS_DEV_NPRESENT\<close> and read the start time, so that the polling loop
  runs from the state \<open>rs\<close>. An exception of the loop is the exception of
  \<^verbatim>\<open>open\<close>, and a loop that ends normally lets \<^verbatim>\<open>open\<close> end normally. At
  the head of the loop in any state \<open>ri\<close>, with the time not yet up (the loop test
  \<^verbatim>\<open>time.time() - start_time < try_time\<close> holds, the difference being the rounded
  difference of two doubles): a \<^verbatim>\<open>clear\<close> that succeeds ends the loop at once; a \<^verbatim>\<open>clear\<close> that fails with
  \<^verbatim>\<open>VI_ERROR_NLISTENERS\<close> makes the loop go on from the state after it; a
  \<^verbatim>\<open>clear\<close> that fails with anything else ends the loop with that exception. And
  when \<^verbatim>\<open>clear\<close> fails with \<^verbatim>\<open>VI_ERROR_NLISTENERS\<close> until the loop test
  fails, the five seconds being over, \<^verbatim>\<open>open\<close> returns without an exception,
  the handle being \<open>h\<close>.
\<close>

theorem open_retry_loop:
  assumes "invoke (OpenBareResource (resource_name r) mode tmo)
             (vl_open_bare_resource vl (resource_name r) mode tmo) r
           = (Inr (h, VI_SUCCESS_DEV_NPRESENT K), r1)"
    and "time_now vl (r1\<lparr>session := Some h\<rparr>) = (start, rs)"
  shows "(retry_loop K vl start rs = Some (Inl e, r4) \<longrightarrow>
            open_resource K vl mode tmo r = Some (Inl e, r4))
    \<and> (retry_loop K vl start rs = Some (Inr (), r4) \<longrightarrow>
            open_resource K vl mode tmo r = Some (Inr (), r4\<lparr>logging_extra_session := session r4\<rparr>))
    \<and> (time_now vl ri = (now, ra) \<and> py_lt_int (float_sub now start) try_time
          \<and> clear vl (sleep vl sleep_time ra) = (Inr (), rb) \<longrightarrow>
            retry_loop K vl start ri = Some (Inr (), rb))
    \<and> (time_now vl ri = (now, ra) \<and> py_lt_int (float_sub now start) try_time
          \<and> clear vl (sleep vl sleep_time ra) = (Inl (VisaIOError (VI_ERROR_NLISTENERS K)), rb) \<longrightarrow>
            retry_loop K vl start ri = retry_loop K vl start rb)
    \<and> (time_now vl ri = (now, ra) \<and> py_lt_int (float_sub now start) try_time
          \<and> clear vl (sleep vl sleep_time ra) = (Inl e, rb)
          \<and> e \<noteq> VisaIOError (VI_ERROR_NLISTENERS K) \<longrightarrow>
            retry_loop K vl start ri = Some (Inl e, rb))
    \<and> (no_listeners_until_timeout K vl start rs r' \<longrightarrow>
            open_resource K vl mode tmo r = Some (Inr (), r'\<lparr>logging_extra_session := Some h\<rparr>)
            \<and> session r' = Some h)"
proof -
  note o = open_resource_not_present[OF assms]
  have s: "session rs = Some h"
    using assms(2) time_now_frame(1)[of vl "r1\<lparr>session := Some h\<rparr>"] by simp
  have 1: "retry_loop K vl start rs = Some (Inl e, r4) \<longrightarrow>
            open_resource K vl mode tmo r = Some (Inl e, r4)"
    by (simp add: o)
  have 2: "retry_loop K vl start rs = Some (Inr (), r4) \<longrightarrow>
            open_resource K vl mode tmo r = Some (Inr (), r4\<lparr>logging_extra_session := session r4\<rparr>)"
    by (simp add: o)
  have 3: "time_now vl ri = (now, ra) \<and> py_lt_int (float_sub now start) try_time
          \<and> clear vl (sleep vl sleep_time ra) = (Inr (), rb) \<longrightarrow>
            retry_loop K vl start ri = Some (Inr (), rb)"
    using retry_loop_cleared by blast
  have 4: "time_now vl ri = (now, ra) \<and> py_lt_int (float_sub now start) try_time
          \<and> clear vl (sleep vl sleep_time ra) = (Inl (VisaIOError (VI_ERROR_NLISTENERS K)), rb) \<longrightarrow>
            retry_loop K vl start ri = retry_loop K vl start rb"
    using retry_loop_no_listeners by blast
  have 5: "time_now vl ri = (now, ra) \<and> py_lt_int (float_sub now start) try_time
          \<and> clear vl (sleep vl sleep_time ra) = (Inl e, rb)
          \<and> e \<noteq> VisaIOError (VI_ERROR_NLISTENERS K) \<longrightarrow>
            retry_loop K vl start ri = Some (Inl e, rb)"
    using retry_loop_raises by blast
  have 6: "no_listeners_until_timeout K vl start rs r' \<longrightarrow>
            open_resource K vl mode tmo r = Some (Inr (), r'\<lparr>logging_extra_session := Some h\<rparr>)
            \<and> session r' = Some h"
  proof
    assume "no_listeners_until_timeout K vl start rs r'"
    then have l: "retry_loop K vl start rs = Some (Inr (), r')" by (rule retry_loop_gives_up)
    from retry_loop_frame[OF l] s have "session r' = Some h" by simp
    with l show "open_resource K vl mode tmo r = Some (Inr (), r'\<lparr>logging_extra_session := Some h\<rparr>)
            \<and> session r' = Some h" by (simp add: o)
  qed
  from 1 2 3 4 5 6 show ?thesis by blast
qed

theorem open_retry_loop_witness:
  "open_resource visa_constants stub_visalib no_lock (PyNum (PyInt 5000))
       (stub_resource (stub_not_present []))
     = Some (Inr (), (stub_resource (stub_not_present []))
         \<lparr>session := Some 7, logging_extra_session := Some 7,
          world := (stub_not_present [])\<lparr>clock := 21 / 8\<rparr>,
          trace := [OpenBareResource ''GPIB::10'' no_lock (PyNum (PyInt 5000)), Time,
                    Time, Sleep sleep_time, Clear (Some 7)]\<rparr>)
   \<and> open_resource visa_constants stub_visalib no_lock (PyNum (PyInt 5000))
       (stub_resource (stub_not_present [Inl (VisaIOError (- 1))]))
     = Some (Inl (VisaIOError (- 1)), (stub_resource (stub_not_present [Inl (VisaIOError (- 1))]))
         \<lparr>session := Some 7,
          world := (stub_not_present [])\<lparr>clock := 21 / 8\<rparr>,
          trace := [OpenBareResource ''GPIB::10'' no_lock (PyNum (PyInt 5000)), Time,
                    Time, Sleep sleep_time, Clear (Some 7)]\<rparr>)
   \<and> open_resource visa_constants stub_visalib no_lock (PyNum (PyInt 5000))
       (stub_resource (stub_not_present
          [Inl (VisaIOError (VI_ERROR_NLISTENERS visa_constants)),
           Inl (VisaIOError (VI_ERROR_NLISTENERS visa_constants))]))
     = Some (Inr (), (stub_resource (stub_not_present []))
         \<lparr>session := Some 7, logging_extra_session := Some 7,
          world := (stub_not_present [])\<lparr>clock := 21 / 4\<rparr>,
          trace := [OpenBareResource ''GPIB::10'' no_lock (PyNum (PyInt 5000)), Time,
                    Time, Sleep sleep_time, Clear (Some 7),
                    Time, Sleep sleep_time, Clear (Some 7), Time]\<rparr>)
   \<and> open_resource visa_constants stub_visalib no_lock (PyNum (PyInt 5000))
       (stub_resource stub_at_rounding)
     = Some (Inr (), (stub_resource stub_at_rounding)
         \<lparr>session := Some 7, logging_extra_session := Some 7,
          world := stub_at_rounding\<lparr>clock := five_point_one, clear_answers := []\<rparr>,
          trace := [OpenBareResource ''GPIB::10'' no_lock (PyNum (PyInt 5000)), Time,
                    Time, Sleep sleep_time, Clear (Some 7), Time]\<rparr>)
   \<and> five_point_one - sleep_time < 5"
proof -
  let ?K = visa_constants
  let ?vl = stub_visalib
  let ?tmo = "PyNum (PyInt 5000)"
  let ?NL = "Inl (VisaIOError (VI_ERROR_NLISTENERS visa_constants)) :: exn + int"
  let ?opn = "OpenBareResource ''GPIB::10'' no_lock ?tmo"
  note defs = stub_visalib_def stub_resource_def stub_not_present_def stub_world0_def init_def
    visa_constants_def invoke_eq time_now_def sleep_def clear_eq stub_clear_def
    float_sub_samples try_time_def
  \<comment> \<open>the device answers the first \<^verbatim>\<open>clear\<close>\<close>
  let ?a0 = "stub_resource (stub_not_present [])"
  let ?a1 = "?a0\<lparr>trace := [?opn]\<rparr>"
  let ?as = "?a0\<lparr>session := Some 7, trace := [?opn, Time]\<rparr>"
  let ?aa = "?a0\<lparr>session := Some 7, trace := [?opn, Time, Time]\<rparr>"
  let ?ab = "?a0\<lparr>session := Some 7, world := (stub_not_present [])\<lparr>clock := 21 / 8\<rparr>,
                 trace := [?opn, Time, Time, Sleep sleep_time, Clear (Some 7)]\<rparr>"
  have a_open: "invoke (OpenBareResource (resource_name ?a0) no_lock ?tmo)
        (vl_open_bare_resource ?vl (resource_name ?a0) no_lock ?tmo) ?a0
      = (Inr (7, VI_SUCCESS_DEV_NPRESENT ?K), ?a1)"
    by (simp add: defs)
  have a_start: "time_now ?vl (?a1\<lparr>session := Some 7\<rparr>) = (0, ?as)"
    by (simp add: defs)
  have a_time: "time_now ?vl ?as = (0, ?aa)"
    by (simp add: defs)
  have a_clear: "clear ?vl (sleep ?vl sleep_time ?aa) = (Inr (), ?ab)"
    by (simp add: defs)
  have a_loop: "retry_loop ?K ?vl 0 ?as = Some (Inr (), ?ab)"
    using open_retry_loop[OF a_open a_start, of _ _ ?as 0 ?aa ?ab] a_time a_clear
    by (simp add: float_sub_samples try_time_def)
  have a: "open_resource ?K ?vl no_lock ?tmo ?a0
             = Some (Inr (), ?ab\<lparr>logging_extra_session := session ?ab\<rparr>)"
    using open_retry_loop[OF a_open a_start, of _ ?ab] a_loop by blast
  \<comment> \<open>the first \<^verbatim>\<open>clear\<close> fails with another error code\<close>
  let ?b0 = "stub_resource (stub_not_present [Inl (VisaIOError (- 1))])"
  let ?b1 = "?b0\<lparr>trace := [?opn]\<rparr>"
  let ?bs = "?b0\<lparr>session := Some 7, trace := [?opn, Time]\<rparr>"
  let ?ba = "?b0\<lparr>session := Some 7, trace := [?opn, Time, Time]\<rparr>"
  let ?bb = "?b0\<lparr>session := Some 7, world := (stub_not_present [])\<lparr>clock := 21 / 8\<rparr>,
                 trace := [?opn, Time, Time, Sleep sleep_time, Clear (Some 7)]\<rparr>"
  have b_open: "invoke (OpenBareResource (resource_name ?b0) no_lock ?tmo)
        (vl_open_bare_resource ?vl (resource_name ?b0) no_lock ?tmo) ?b0
      = (Inr (7, VI_SUCCESS_DEV_NPRESENT ?K), ?b1)"
    by (simp add: defs)
  have b_start: "time_now ?vl (?b1\<lparr>session := Some 7\<rparr>) = (0, ?bs)"
    by (simp add: defs)
  have b_time: "time_now ?vl ?bs = (0, ?ba)"
    by (simp add: defs)
  have b_clear: "clear ?vl (sleep ?vl sleep_time ?ba) = (Inl (VisaIOError (- 1)), ?bb)"
    by (simp add: defs)
  have b_other: "VisaIOError (- 1) \<noteq> VisaIOError (VI_ERROR_NLISTENERS ?K)"
    by (simp add: visa_constants_def)
  have b_loop: "retry_loop ?K ?vl 0 ?bs = Some (Inl (VisaIOError (- 1)), ?bb)"
    using open_retry_loop[OF b_open b_start, of "VisaIOError (- 1)" _ ?bs 0 ?ba ?bb]
      b_time b_clear b_other by (simp add: float_sub_samples try_time_def)
  have b: "open_resource ?K ?vl no_lock ?tmo ?b0 = Some (Inl (VisaIOError (- 1)), ?bb)"
    using open_retry_loop[OF b_open b_start, of "VisaIOError (- 1)" ?bb] b_loop by blast
  \<comment> \<open>no listeners until the time is up\<close>
  let ?c0 = "stub_resource (stub_not_present [?NL, ?NL])"
  let ?c1 = "?c0\<lparr>trace := [?opn]\<rparr>"
  let ?cs = "?c0\<lparr>session := Some 7, trace := [?opn, Time]\<rparr>"
  let ?ca = "?c0\<lparr>session := Some 7, trace := [?opn, Time, Time]\<rparr>"
  let ?cb = "?c0\<lparr>session := Some 7,
                 world := (stub_not_present [?NL])\<lparr>clock := 21 / 8\<rparr>,
                 trace := [?opn, Time, Time, Sleep sleep_time, Clear (Some 7)]\<rparr>"
  let ?cc = "?c0\<lparr>session := Some 7,
                 world := (stub_not_present [?NL])\<lparr>clock := 21 / 8\<rparr>,
                 trace := [?opn, Time, Time, Sleep sleep_time, Clear (Some 7), Time]\<rparr>"
  let ?cd = "?c0\<lparr>session := Some 7,
                 world := (stub_not_present [])\<lparr>clock := 21 / 4\<rparr>,
                 trace := [?opn, Time, Time, Sleep sleep_time, Clear (Some 7),
                           Time, Sleep sleep_time, Clear (Some 7)]\<rparr>"
  let ?ce = "?c0\<lparr>session := Some 7,
                 world := (stub_not_present [])\<lparr>clock := 21 / 4\<rparr>,
                 trace := [?opn, Time, Time, Sleep sleep_time, Clear (Some 7),
                           Time, Sleep sleep_time, Clear (Some 7), Time]\<rparr>"
  have c_open: "invoke (OpenBareResource (resource_name ?c0) no_lock ?tmo)
        (vl_open_bare_resource ?vl (resource_name ?c0) no_lock ?tmo) ?c0
      = (Inr (7, VI_SUCCESS_DEV_NPRESENT ?K), ?c1)"
    by (simp add: defs)
  have c_start: "time_now ?vl (?c1\<lparr>session := Some 7\<rparr>) = (0, ?cs)"
    by (simp add: defs)
  have c_time1: "time_now ?vl ?cs = (0, ?ca)"
    by (simp add: defs)
  have c_clear1: "clear ?vl (sleep ?vl sleep_time ?ca) = (Inl (VisaIOError (VI_ERROR_NLISTENERS ?K)), ?cb)"
    by (simp add: defs)
  have c_time2: "time_now ?vl ?cb = (21 / 8, ?cc)"
    by (simp add: defs)
  have c_clear2: "clear ?vl (sleep ?vl sleep_time ?cc) = (Inl (VisaIOError (VI_ERROR_NLISTENERS ?K)), ?cd)"
    by (simp add: defs)
  have c_time3: "time_now ?vl ?cd = (21 / 4, ?ce)"
    by (simp add: defs)
  have c_goes_on: "retry_loop ?K ?vl 0 ?cs = retry_loop ?K ?vl 0 ?cb"
    using open_retry_loop[OF c_open c_start, of _ _ ?cs 0 ?ca ?cb] c_time1 c_clear1
    by (simp add: float_sub_samples try_time_def)
  have c_run: "no_listeners_until_timeout ?K ?vl 0 ?cs ?ce"
  proof (rule no_listeners_until_timeout.again[OF c_time1 _ c_clear1])
    show "py_lt_int (float_sub 0 0) try_time" by (simp add: float_sub_samples try_time_def)
    show "no_listeners_until_timeout ?K ?vl 0 ?cb ?ce"
    proof (rule no_listeners_until_timeout.again[OF c_time2 _ c_clear2])
      show "py_lt_int (float_sub (21 / 8) 0) try_time"
        by (simp add: float_sub_samples try_time_def)
      show "no_listeners_until_timeout ?K ?vl 0 ?cd ?ce"
        by (rule no_listeners_until_timeout.elapsed[OF c_time3])
           (simp add: float_sub_samples try_time_def)
    qed
  qed
  have c: "open_resource ?K ?vl no_lock ?tmo ?c0
             = Some (Inr (), ?ce\<lparr>logging_extra_session := Some 7\<rparr>) \<and> session ?ce = Some 7"
    using open_retry_loop[OF c_open c_start, of _ _ _ _ _ _ ?ce] c_run by blast
  \<comment> \<open>the clock shows 0.1 and then 5.1: the rounded difference is 5, and the loop ends\<close>
  note rdefs = stub_visalib_def stub_resource_def stub_at_rounding_def stub_world0_def init_def
    visa_constants_def invoke_eq time_now_def sleep_def clear_eq stub_clear_def
  let ?d0 = "stub_resource stub_at_rounding"
  let ?d1 = "?d0\<lparr>trace := [?opn]\<rparr>"
  let ?ds = "?d0\<lparr>session := Some 7, trace := [?opn, Time]\<rparr>"
  let ?da = "?d0\<lparr>session := Some 7, trace := [?opn, Time, Time]\<rparr>"
  let ?db = "?d0\<lparr>session := Some 7,
                 world := stub_at_rounding\<lparr>clock := five_point_one, clear_answers := []\<rparr>,
                 trace := [?opn, Time, Time, Sleep sleep_time, Clear (Some 7)]\<rparr>"
  let ?dc = "?d0\<lparr>session := Some 7,
                 world := stub_at_rounding\<lparr>clock := five_point_one, clear_answers := []\<rparr>,
                 trace := [?opn, Time, Time, Sleep sleep_time, Clear (Some 7), Time]\<rparr>"
  have d_open: "invoke (OpenBareResource (resource_name ?d0) no_lock ?tmo)
        (vl_open_bare_resource ?vl (resource_name ?d0) no_lock ?tmo) ?d0
      = (Inr (7, VI_SUCCESS_DEV_NPRESENT ?K), ?d1)"
    by (simp add: rdefs)
  have d_start: "time_now ?vl (?d1\<lparr>session := Some 7\<rparr>) = (sleep_time, ?ds)"
    by (simp add: rdefs)
  have d_time1: "time_now ?vl ?ds = (sleep_time, ?da)"
    by (simp add: rdefs)
  have d_clear1: "clear ?vl (sleep ?vl sleep_time ?da)
      = (Inl (VisaIOError (VI_ERROR_NLISTENERS ?K)), ?db)"
    by (simp add: rdefs)
  have d_time2: "time_now ?vl ?db = (five_point_one, ?dc)"
    by (simp add: rdefs)
  have d_test1: "py_lt_int (float_sub sleep_time sleep_time) try_time"
    by (simp add: float_sub_self try_time_def)
  have d_test2: "\<not> py_lt_int (float_sub five_point_one sleep_time) try_time"
    by (simp add: float_sub_five_point_one try_time_def)
  have d_run: "no_listeners_until_timeout ?K ?vl sleep_time ?ds ?dc"
    by (rule no_listeners_until_timeout.again[OF d_time1 d_test1 d_clear1])
       (rule no_listeners_until_timeout.elapsed[OF d_time2 d_test2])
  have d: "open_resource ?K ?vl no_lock ?tmo ?d0
             = Some (Inr (), ?dc\<lparr>logging_extra_session := Some 7\<rparr>) \<and> session ?dc = Some 7"
    using open_retry_loop[OF d_open d_start, of _ _ _ _ _ _ ?dc] d_run by blast
  have below: "five_point_one - sleep_time < 5"
    by (simp add: five_point_one_def sleep_time_def)
  from a b c d below show ?thesis
    by (simp add: stub_resource_def init_def)
qed

text \<open>
  C4, at the input \<^verbatim>\<open>2 ** 1024\<close>. The number is not negative, is not NaN and lies
  outside the range, so the claim has the write raise the invalid-argument error, which
  in the code is \<^verbatim>\<open>ValueError("timeout value is invalid")\<close>. The code evaluates
  \<^verbatim>\<open>math.isnan(timeout)\<close> before it reaches the range check, and on this
  \<^verbatim>\<open>int\<close> that call raises \<^verbatim>\<open>OverflowError\<close>: the write fails with another
  exception than the one of the range check. (Everything else the claim says holds:
  \<open>timeout_setter_value_error_iff\<close>, \<open>timeout_setter_in_range\<close>,
  \<open>timeout_reads_back\<close>.)
\<close>

theorem timeout_setter_huge_int_overflow_error:
  "timeout_setter K vl (PyInt (2 ^ 1024)) r
     = (Inl (OverflowError ''int too large to convert to float''), r)
   \<and> \<not> py_lt_zero (PyInt (2 ^ 1024))
   \<and> \<not> in_timeout_range (PyInt (2 ^ 1024))
   \<and> fst (timeout_setter K vl (PyInt (2 ^ 1024)) r) \<noteq> Inl (ValueError ''timeout value is invalid'')
   \<and> timeout_setter K vl (PyInt 4294967295) r = (Inl (ValueError ''timeout value is invalid''), r)"
proof -
  have big: "float_overflows (2 ^ 1024)" by (simp add: float_overflows_def)
  have small: "\<not> float_overflows 4294967295" by (simp add: float_overflows_def)
  from big small show ?thesis by (simp add: timeout_setter_def)
qed

text \<open>
  C5. For every input that is negative or NaN the setter stores the constant
  \<^verbatim>\<open>VI_TMO_INFINITE\<close> in the timeout attribute, by one call of the raw setter;
  when the library keeps attributes and that call succeeds, the getter then returns
  NaN. Whenever the raw value the library answers is not equal to
  \<^verbatim>\<open>VI_TMO_INFINITE\<close>, the getter returns it as it is.
\<close>

theorem timeout_infinite_round_trip:
  "(py_lt_zero t \<or> t = PyNaN \<longrightarrow>
      timeout_setter K vl t r
        = set_visa_attribute vl (VI_ATTR_TMO_VALUE K) (PyNum (PyInt (VI_TMO_INFINITE K))) r
      \<and> trace (snd (timeout_setter K vl t r))
        = trace r @ [SetAttribute (session r) (VI_ATTR_TMO_VALUE K) (PyNum (PyInt (VI_TMO_INFINITE K)))])
   \<and> ((py_lt_zero t \<or> t = PyNaN) \<and> attribute_store vl
        \<and> timeout_setter K vl t r = (Inr (), r1) \<longrightarrow>
      fst (timeout K vl r1) = Inr (PyNum PyNaN))
   \<and> (fst (vl_get_attribute vl (session r) (VI_ATTR_TMO_VALUE K) (world r)) = Inr (v, st)
        \<and> \<not> py_eq_int v (VI_TMO_INFINITE K) \<longrightarrow>
      fst (timeout K vl r) = Inr v)"
proof -
  have stores: "py_lt_zero t \<or> t = PyNaN \<longrightarrow>
      timeout_setter K vl t r
        = set_visa_attribute vl (VI_ATTR_TMO_VALUE K) (PyNum (PyInt (VI_TMO_INFINITE K))) r
      \<and> trace (snd (timeout_setter K vl t r))
        = trace r @ [SetAttribute (session r) (VI_ATTR_TMO_VALUE K) (PyNum (PyInt (VI_TMO_INFINITE K)))]"
    by (simp add: timeout_setter_infinite set_visa_attribute_calls)
  have readback: "(py_lt_zero t \<or> t = PyNaN) \<and> attribute_store vl
        \<and> timeout_setter K vl t r = (Inr (), r1) \<longrightarrow>
      fst (timeout K vl r1) = Inr (PyNum PyNaN)"
  proof
    assume h: "(py_lt_zero t \<or> t = PyNaN) \<and> attribute_store vl
        \<and> timeout_setter K vl t r = (Inr (), r1)"
    then have inf: "py_lt_zero t \<or> t = PyNaN" and st: "attribute_store vl"
      and ret: "timeout_setter K vl t r = (Inr (), r1)" by simp_all
    from ret timeout_setter_infinite[OF inf, of K vl r]
    have "set_visa_attribute vl (VI_ATTR_TMO_VALUE K) (PyNum (PyInt (VI_TMO_INFINITE K))) r
        = (Inr (), r1)"
      by simp
    from timeout_reads_back[OF st this] show "fst (timeout K vl r1) = Inr (PyNum PyNaN)"
      by simp
  qed
  have raw: "fst (vl_get_attribute vl (session r) (VI_ATTR_TMO_VALUE K) (world r)) = Inr (v, st)
        \<and> \<not> py_eq_int v (VI_TMO_INFINITE K) \<longrightarrow>
      fst (timeout K vl r) = Inr v"
    by (simp add: timeout_reads_raw)
  from stores readback raw show ?thesis by blast
qed

theorem timeout_infinite_round_trip_witness:
  "fst (timeout visa_constants stub_visalib
          (snd (timeout_setter visa_constants stub_visalib (PyInt (- 5))
                  ((stub_resource stub_world0)\<lparr>session := Some 7\<rparr>))))
     = Inr (PyNum PyNaN)
   \<and> fst (timeout visa_constants stub_visalib
          (snd (timeout_setter visa_constants stub_visalib PyNaN
                  ((stub_resource stub_world0)\<lparr>session := Some 7\<rparr>))))
     = Inr (PyNum PyNaN)
   \<and> trace (snd (timeout_setter visa_constants stub_visalib (PyInt (- 5))
                  ((stub_resource stub_world0)\<lparr>session := Some 7\<rparr>)))
     = [SetAttribute (Some 7) (VI_ATTR_TMO_VALUE visa_constants) (PyNum (PyInt 4294967295))]
   \<and> fst (timeout visa_constants stub_visalib
          ((stub_resource (stub_world0\<lparr>attributes := [(VI_ATTR_TMO_VALUE visa_constants, PyNum (PyInt 2000))]\<rparr>))
             \<lparr>session := Some 7\<rparr>))
     = Inr (PyNum (PyInt 2000))"
proof -
  let ?K = visa_constants
  let ?vl = stub_visalib
  let ?r = "(stub_resource stub_world0)\<lparr>session := Some 7\<rparr>"
  let ?w = "stub_world0\<lparr>attributes := [(VI_ATTR_TMO_VALUE visa_constants, PyNum (PyInt 2000))]\<rparr>"
  let ?q = "(stub_resource ?w)\<lparr>session := Some 7\<rparr>"
  note defs = stub_visalib_def stub_resource_def stub_world0_def init_def visa_constants_def
    stub_get_attribute_def
  have neg: "py_lt_zero (PyInt (- 5)) \<or> PyInt (- 5) = PyNaN" by simp
  have nan: "py_lt_zero PyNaN \<or> PyNaN = PyNaN" by simp
  have ok: "\<And>t. fst (set_visa_attribute ?vl (VI_ATTR_TMO_VALUE ?K) t ?r) = Inr ()"
    by (simp add: set_visa_attribute_eq stub_visalib_def)
  have s1: "timeout_setter ?K ?vl (PyInt (- 5)) ?r
      = (Inr (), snd (timeout_setter ?K ?vl (PyInt (- 5)) ?r))"
    using timeout_infinite_round_trip[where t = "PyInt (- 5)" and K = ?K and vl = ?vl and r = ?r] neg ok
    by (simp add: prod_eq_iff)
  have s2: "timeout_setter ?K ?vl PyNaN ?r = (Inr (), snd (timeout_setter ?K ?vl PyNaN ?r))"
    using timeout_infinite_round_trip[where t = PyNaN and K = ?K and vl = ?vl and r = ?r] nan ok
    by (simp add: prod_eq_iff)
  have raw: "fst (vl_get_attribute ?vl (session ?q) (VI_ATTR_TMO_VALUE ?K) (world ?q))
        = Inr (PyNum (PyInt 2000), 0)
      \<and> \<not> py_eq_int (PyNum (PyInt 2000)) (VI_TMO_INFINITE ?K)"
    by (simp add: defs)
  have 1: "fst (timeout ?K ?vl (snd (timeout_setter ?K ?vl (PyInt (- 5)) ?r))) = Inr (PyNum PyNaN)"
    using timeout_infinite_round_trip[where t = "PyInt (- 5)" and K = ?K and vl = ?vl and r = ?r
        and ?r1.0 = "snd (timeout_setter ?K ?vl (PyInt (- 5)) ?r)"]
      neg stub_keeps_attributes s1 by blast
  have 2: "fst (timeout ?K ?vl (snd (timeout_setter ?K ?vl PyNaN ?r))) = Inr (PyNum PyNaN)"
    using timeout_infinite_round_trip[where t = PyNaN and K = ?K and vl = ?vl and r = ?r
        and ?r1.0 = "snd (timeout_setter ?K ?vl PyNaN ?r)"]
      nan stub_keeps_attributes s2 by blast
  have 3: "trace (snd (timeout_setter ?K ?vl (PyInt (- 5)) ?r))
      = trace ?r @ [SetAttribute (session ?r) (VI_ATTR_TMO_VALUE ?K) (PyNum (PyInt (VI_TMO_INFINITE ?K)))]"
    using timeout_infinite_round_trip[where t = "PyInt (- 5)" and K = ?K and vl = ?vl and r = ?r] neg
    by blast
  have 4: "fst (timeout ?K ?vl ?q) = Inr (PyNum (PyInt 2000))"
    using timeout_infinite_round_trip[where K = ?K and vl = ?vl and r = ?q
        and v = "PyNum (PyInt 2000)" and st = 0] raw
    by blast
  from 1 2 3 4 show ?thesis by (simp add: defs)
qed

text \<open>
  C6. When the library answers the read of the class attribute with a text string,
  \<^verbatim>\<open>resource_class\<close> returns it upper-cased: each code point replaced by its
  upper-case mapping, which on ASCII turns a to z into A to Z and keeps the rest, and
  from code point 128 on is the mapping \<open>U\<close> of the Unicode table; a byte string
  comes back with its bytes a to z turned into A to Z. When the read raises a
  \<^verbatim>\<open>VisaIOError\<close> whose code is \<^verbatim>\<open>VI_ERROR_NSUP_ATTR\<close>, \<^verbatim>\<open>resource_class\<close>
  returns the text \<^verbatim>\<open>'Unknown'\<close>; and it returns \<^verbatim>\<open>'Unknown'\<close>, as text or as
  bytes, in that case only, the Unicode table giving no lower-case ASCII letter. Every
  other exception of the read is the exception of \<^verbatim>\<open>resource_class\<close>. The one call
  made is that read.
\<close>

theorem resource_class_unknown_iff_not_supported:
  "(fst (vl_get_attribute vl (session r) (VI_ATTR_RSRC_CLASS K) (world r)) = Inr (PyUnicode s, st) \<longrightarrow>
      fst (resource_class K U vl r)
        = Inr (PyUnicode (concat (map (\<lambda>c. if 97 \<le> c \<and> c \<le> 122 then [c - 32]
                                           else if c < 128 then [c] else U c) s))))
   \<and> (fst (vl_get_attribute vl (session r) (VI_ATTR_RSRC_CLASS K) (world r)) = Inr (PyStr b, st) \<longrightarrow>
      fst (resource_class K U vl r)
        = Inr (PyStr (map (\<lambda>c. if (97::nat) \<le> of_char c \<and> of_char c \<le> (122::nat)
                                 then char_of (of_char c - (32::nat)) else c) b)))
   \<and> (fst (vl_get_attribute vl (session r) (VI_ATTR_RSRC_CLASS K) (world r))
         = Inl (VisaIOError (VI_ERROR_NSUP_ATTR K)) \<longrightarrow>
      fst (resource_class K U vl r) = Inr (PyUnicode (map of_char ''Unknown'')))
   \<and> (no_ascii_lower U
        \<and> (fst (resource_class K U vl r) = Inr (PyUnicode (map of_char ''Unknown''))
             \<or> fst (resource_class K U vl r) = Inr (PyStr ''Unknown'')) \<longrightarrow>
      fst (vl_get_attribute vl (session r) (VI_ATTR_RSRC_CLASS K) (world r))
         = Inl (VisaIOError (VI_ERROR_NSUP_ATTR K)))
   \<and> (fst (vl_get_attribute vl (session r) (VI_ATTR_RSRC_CLASS K) (world r)) = Inl e
        \<and> e \<noteq> VisaIOError (VI_ERROR_NSUP_ATTR K) \<longrightarrow>
      fst (resource_class K U vl r) = Inl e)
   \<and> trace (snd (resource_class K U vl r)) = trace r @ [GetAttribute (session r) (VI_ATTR_RSRC_CLASS K)]"
proof -
  let ?ans = "fst (vl_get_attribute vl (session r) (VI_ATTR_RSRC_CLASS K) (world r))"
  let ?res = "fst (resource_class K U vl r)"
  have text_up: "?ans = Inr (PyUnicode s, st) \<longrightarrow>
      ?res = Inr (PyUnicode (concat (map (\<lambda>c. if 97 \<le> c \<and> c \<le> 122 then [c - 32]
                                           else if c < 128 then [c] else U c) s)))"
    by (simp add: resource_class_def get_visa_attribute_eq unicode_upper_eq)
  have bytes_up: "?ans = Inr (PyStr b, st) \<longrightarrow>
      ?res = Inr (PyStr (map (\<lambda>c. if (97::nat) \<le> of_char c \<and> of_char c \<le> (122::nat)
                                 then char_of (of_char c - (32::nat)) else c) b))"
    by (simp add: resource_class_def get_visa_attribute_eq str_upper_eq)
  have unk: "?ans = Inl (VisaIOError (VI_ERROR_NSUP_ATTR K)) \<longrightarrow>
      ?res = Inr (PyUnicode (map of_char ''Unknown''))"
    by (simp add: resource_class_def get_visa_attribute_eq Unknown_def)
  have only: "no_ascii_lower U
        \<and> (?res = Inr (PyUnicode (map of_char ''Unknown'')) \<or> ?res = Inr (PyStr ''Unknown'')) \<longrightarrow>
      ?ans = Inl (VisaIOError (VI_ERROR_NSUP_ATTR K))"
  proof
    assume h: "no_ascii_lower U
        \<and> (?res = Inr (PyUnicode (map of_char ''Unknown'')) \<or> ?res = Inr (PyStr ''Unknown''))"
    then have res: "?res = Inr (PyUnicode Unknown) \<or> ?res = Inr (PyStr ''Unknown'')"
      by (simp add: Unknown_def)
    show "?ans = Inl (VisaIOError (VI_ERROR_NSUP_ATTR K))"
    proof (cases ?ans)
      case (Inl e)
      with res show ?thesis
        by (cases e) (auto simp: resource_class_def get_visa_attribute_eq split: if_splits)
    next
      case (Inr vs)
      obtain v st' where vs: "vs = (v, st')" by (cases vs)
      have "py_upper U v \<noteq> Inr (PyUnicode Unknown)" "py_upper U v \<noteq> Inr (PyStr ''Unknown'')"
        using h unicode_upper_not_Unknown[of U] str_upper_not_Unknown
        by (cases v; simp)+
      with Inr vs res show ?thesis
        by (simp add: resource_class_def get_visa_attribute_eq)
    qed
  qed
  have oth: "?ans = Inl e \<and> e \<noteq> VisaIOError (VI_ERROR_NSUP_ATTR K) \<longrightarrow> ?res = Inl e"
    by (cases e) (auto simp: resource_class_def get_visa_attribute_eq)
  have tr: "trace (snd (resource_class K U vl r))
      = trace r @ [GetAttribute (session r) (VI_ATTR_RSRC_CLASS K)]"
    by (simp add: resource_class_def get_visa_attribute_eq split: sum.splits exn.splits)
  from text_up bytes_up unk only oth tr show ?thesis by blast
qed

theorem resource_class_unknown_iff_not_supported_witness:
  "fst (resource_class visa_constants sample_upper_table stub_visalib
          (stub_resource (stub_world0\<lparr>attributes :=
             [(VI_ATTR_RSRC_CLASS visa_constants, PyUnicode (map of_char ''tcp1p-Sock''))]\<rparr>)))
     = Inr (PyUnicode (map of_char ''TCP1P-SOCK''))
   \<and> fst (resource_class visa_constants sample_upper_table stub_visalib
          (stub_resource (stub_world0\<lparr>attributes :=
             [(VI_ATTR_RSRC_CLASS visa_constants, PyUnicode [233, 116, 223])]\<rparr>)))
     = Inr (PyUnicode [201, 84, 83, 83])
   \<and> fst (resource_class visa_constants sample_upper_table stub_visalib
          (stub_resource (stub_world0\<lparr>attributes :=
             [(VI_ATTR_RSRC_CLASS visa_constants, PyStr ''instr'')]\<rparr>)))
     = Inr (PyStr ''INSTR'')
   \<and> fst (resource_class visa_constants sample_upper_table stub_visalib (stub_resource stub_world0))
     = Inr (PyUnicode (map of_char ''Unknown''))
   \<and> fst (vl_get_attribute stub_visalib (session (stub_resource stub_world0))
          (VI_ATTR_RSRC_CLASS visa_constants) (world (stub_resource stub_world0)))
     = Inl (VisaIOError (VI_ERROR_NSUP_ATTR visa_constants))
   \<and> fst (resource_class visa_constants sample_upper_table stub_visalib_read_error
          (stub_resource stub_world0))
     = Inl (VisaIOError (- 1))"
proof -
  let ?K = visa_constants
  let ?U = sample_upper_table
  let ?w1 = "stub_world0\<lparr>attributes :=
             [(VI_ATTR_RSRC_CLASS visa_constants, PyUnicode (map of_char ''tcp1p-Sock''))]\<rparr>"
  let ?w2 = "stub_world0\<lparr>attributes :=
             [(VI_ATTR_RSRC_CLASS visa_constants, PyUnicode [233, 116, 223])]\<rparr>"
  let ?w3 = "stub_world0\<lparr>attributes := [(VI_ATTR_RSRC_CLASS visa_constants, PyStr ''instr'')]\<rparr>"
  let ?r0 = "stub_resource stub_world0"
  let ?bad = stub_visalib_read_error
  note defs = stub_visalib_def stub_visalib_read_error_def stub_resource_def stub_world0_def
    init_def visa_constants_def stub_get_attribute_def
  have table: "no_ascii_lower ?U"
    by (auto simp: no_ascii_lower_def sample_upper_table_def split: if_splits)
  have 1: "fst (vl_get_attribute stub_visalib (session (stub_resource ?w1)) (VI_ATTR_RSRC_CLASS ?K)
              (world (stub_resource ?w1))) = Inr (PyUnicode (map of_char ''tcp1p-Sock''), 0)"
    by (simp add: defs)
  have 2: "fst (vl_get_attribute stub_visalib (session (stub_resource ?w2)) (VI_ATTR_RSRC_CLASS ?K)
              (world (stub_resource ?w2))) = Inr (PyUnicode [233, 116, 223], 0)"
    by (simp add: defs)
  have 3: "fst (vl_get_attribute stub_visalib (session (stub_resource ?w3)) (VI_ATTR_RSRC_CLASS ?K)
              (world (stub_resource ?w3))) = Inr (PyStr ''instr'', 0)"
    by (simp add: defs)
  have 4: "fst (vl_get_attribute stub_visalib (session ?r0) (VI_ATTR_RSRC_CLASS ?K) (world ?r0))
            = Inl (VisaIOError (VI_ERROR_NSUP_ATTR ?K))"
    by (simp add: defs)
  have 5: "fst (vl_get_attribute ?bad (session ?r0) (VI_ATTR_RSRC_CLASS ?K) (world ?r0))
            = Inl (VisaIOError (- 1))
          \<and> VisaIOError (- 1) \<noteq> VisaIOError (VI_ERROR_NSUP_ATTR ?K)"
    by (simp add: defs)
  have t1: "fst (resource_class ?K ?U stub_visalib (stub_resource ?w1))
      = Inr (PyUnicode (concat (map (\<lambda>c. if 97 \<le> c \<and> c \<le> 122 then [c - 32]
                                           else if c < 128 then [c] else ?U c)
                                  (map of_char ''tcp1p-Sock''))))"
    using resource_class_unknown_iff_not_supported
      [where vl = stub_visalib and r = "stub_resource ?w1" and K = ?K and U = ?U
         and s = "map of_char ''tcp1p-Sock''" and st = 0] 1
    by blast
  have t2: "fst (resource_class ?K ?U stub_visalib (stub_resource ?w2))
      = Inr (PyUnicode (concat (map (\<lambda>c. if 97 \<le> c \<and> c \<le> 122 then [c - 32]
                                           else if c < 128 then [c] else ?U c)
                                  [233, 116, 223])))"
    using resource_class_unknown_iff_not_supported
      [where vl = stub_visalib and r = "stub_resource ?w2" and K = ?K and U = ?U
         and s = "[233, 116, 223]" and st = 0] 2
    by blast
  have t3: "fst (resource_class ?K ?U stub_visalib (stub_resource ?w3))
      = Inr (PyStr (map (\<lambda>c. if (97::nat) \<le> of_char c \<and> of_char c \<le> (122::nat)
                                 then char_of (of_char c - (32::nat)) else c) ''instr''))"
    using resource_class_unknown_iff_not_supported
      [where vl = stub_visalib and r = "stub_resource ?w3" and K = ?K and U = ?U
         and b = "''instr''" and st = 0] 3
    by blast
  have t4: "fst (resource_class ?K ?U stub_visalib ?r0) = Inr (PyUnicode (map of_char ''Unknown''))"
    using resource_class_unknown_iff_not_supported
      [where vl = stub_visalib and r = ?r0 and K = ?K and U = ?U] 4
    by blast
  have t4': "fst (vl_get_attribute stub_visalib (session ?r0) (VI_ATTR_RSRC_CLASS ?K) (world ?r0))
            = Inl (VisaIOError (VI_ERROR_NSUP_ATTR ?K))"
    using resource_class_unknown_iff_not_supported
      [where vl = stub_visalib and r = ?r0 and K = ?K and U = ?U] table t4
    by blast
  have t5: "fst (resource_class ?K ?U ?bad ?r0) = Inl (VisaIOError (- 1))"
    using resource_class_unknown_iff_not_supported
      [where vl = ?bad and r = ?r0 and K = ?K and U = ?U and e = "VisaIOError (- 1)"] 5
    by blast
  have e1: "concat (map (\<lambda>c. if 97 \<le> c \<and> c \<le> 122 then [c - 32]
                             else if c < 128 then [c] else ?U c) (map of_char ''tcp1p-Sock''))
            = map of_char ''TCP1P-SOCK''"
    by simp
  have e2: "concat (map (\<lambda>c. if 97 \<le> c \<and> c \<le> 122 then [c - 32]
                             else if c < 128 then [c] else ?U c) [233, 116, 223])
            = [201, 84, 83, 83]"
    by (simp add: sample_upper_table_def)
  have e3: "map (\<lambda>c. if (97::nat) \<le> of_char c \<and> of_char c \<le> (122::nat)
                      then char_of (of_char c - (32::nat)) else c) ''instr'' = ''INSTR''"
    by code_simp
  from t1 t2 t3 t4 t4' t5 show ?thesis unfolding e1 e2 e3 by blast
qed



text \<open>
  C8, on a library whose \<^verbatim>\<open>install_handler\<close> answers the user handle and a
  status. \<^verbatim>\<open>install_handler\<close> registers the handler by one call for the session,
  and returns the answer without its last element: a tuple holding the user handle,
  not the user handle.
\<close>

theorem install_handler_returns_slice:
  "vl_install_handler stub_visalib (Some 7) (PyNum (PyInt 1)) (PyObj 1) (PyObj 2) stub_world0
     = (Inr [PyObj 2, PyNum (PyInt 0)], stub_world0)
   \<and> install_handler stub_visalib (PyNum (PyInt 1)) (PyObj 1) (PyObj 2)
        ((stub_resource stub_world0)\<lparr>session := Some 7\<rparr>)
     = (Inr (PyTuple [PyObj 2]),
        (stub_resource stub_world0)
          \<lparr>session := Some 7,
           trace := [InstallHandler (Some 7) (PyNum (PyInt 1)) (PyObj 1) (PyObj 2)]\<rparr>)
   \<and> fst (install_handler stub_visalib (PyNum (PyInt 1)) (PyObj 1) (PyObj 2)
        ((stub_resource stub_world0)\<lparr>session := Some 7\<rparr>)) \<noteq> Inr (PyObj 2)"
  by (simp add: install_handler_eq stub_visalib_def stub_resource_def stub_world0_def init_def)

text \<open>
  C9. \<^verbatim>\<open>open\<close> never looks at the handle the resource already has. Whatever
  \<open>session r\<close> is, once the library has answered the open call with a handle \<open>h\<close>
  the handle of the resource is \<open>h\<close>. When the status is not
  \<^verbatim>\<open>VI_SUCCESS_DEV_NPRESENT\<close>, \<^verbatim>\<open>open\<close> returns at once, having made the open
  call and no other. When it is, then on every run of the polling loop that ends (the
  loop test fails, or \<^verbatim>\<open>clear\<close> succeeds, or \<^verbatim>\<open>clear\<close> raises another error,
  after any number of passes without listeners) \<^verbatim>\<open>open\<close> returns with the outcome
  of the loop, the handle is \<open>h\<close>, and no \<^verbatim>\<open>close\<close> has been called. And
  however \<^verbatim>\<open>open\<close> ends, the calls it has added to the trace start with the open
  call and have no \<^verbatim>\<open>close\<close> among them.
\<close>

theorem reopen_overwrites_handle_without_release:
  assumes "fst (vl_open_bare_resource vl (resource_name r) mode tmo (world r)) = Inr (h, st)"
  shows "(st \<noteq> VI_SUCCESS_DEV_NPRESENT K \<longrightarrow>
            open_resource K vl mode tmo r =
              Some (Inr (), r\<lparr>session := Some h, logging_extra_session := Some h,
                              world := snd (vl_open_bare_resource vl (resource_name r) mode tmo (world r)),
                              trace := trace r @ [OpenBareResource (resource_name r) mode tmo]\<rparr>))
    \<and> (st = VI_SUCCESS_DEV_NPRESENT K
          \<and> time_now vl
               (r\<lparr>world := snd (vl_open_bare_resource vl (resource_name r) mode tmo (world r)),
                  trace := trace r @ [OpenBareResource (resource_name r) mode tmo],
                  session := Some h\<rparr>) = (start, rs)
          \<and> retry_run K vl start rs (out, r4) \<longrightarrow>
            open_resource K vl mode tmo r =
              Some (out, case out of Inl e \<Rightarrow> r4 | Inr u \<Rightarrow> r4\<lparr>logging_extra_session := Some h\<rparr>)
            \<and> session r4 = Some h
            \<and> take (Suc (length (trace r))) (trace r4)
                = trace r @ [OpenBareResource (resource_name r) mode tmo]
            \<and> filter is_close (calls_since r r4) = [])
    \<and> (open_resource K vl mode tmo r = Some (res, r') \<longrightarrow>
            session r' = Some h
            \<and> take (Suc (length (trace r))) (trace r')
                = trace r @ [OpenBareResource (resource_name r) mode tmo]
            \<and> filter is_close (calls_since r r') = [])"
proof -
  let ?opn = "OpenBareResource (resource_name r) mode tmo"
  let ?r1 = "r\<lparr>world := snd (vl_open_bare_resource vl (resource_name r) mode tmo (world r)),
               trace := trace r @ [?opn]\<rparr>"
  have inv: "invoke ?opn (vl_open_bare_resource vl (resource_name r) mode tmo) r = (Inr (h, st), ?r1)"
    using assms by (simp add: invoke_eq)
  have plain: "st \<noteq> VI_SUCCESS_DEV_NPRESENT K \<longrightarrow>
            open_resource K vl mode tmo r =
              Some (Inr (), r\<lparr>session := Some h, logging_extra_session := Some h,
                              world := snd (vl_open_bare_resource vl (resource_name r) mode tmo (world r)),
                              trace := trace r @ [?opn]\<rparr>)"
    using inv by (simp add: open_resource_def ignore_warning_def Let_def)
  have any: "open_resource K vl mode tmo r = Some (res, r') \<longrightarrow>
            session r' = Some h
            \<and> take (Suc (length (trace r))) (trace r') = trace r @ [?opn]
            \<and> filter is_close (calls_since r r') = []" for res r'
  proof
    assume ret: "open_resource K vl mode tmo r = Some (res, r')"
    show "session r' = Some h
            \<and> take (Suc (length (trace r))) (trace r') = trace r @ [?opn]
            \<and> filter is_close (calls_since r r') = []"
    proof (cases "st = VI_SUCCESS_DEV_NPRESENT K")
      case False
      with plain ret show ?thesis by (auto simp: calls_since_def)
    next
      case True
      obtain start rs where t: "time_now vl (?r1\<lparr>session := Some h\<rparr>) = (start, rs)"
        by (cases "time_now vl (?r1\<lparr>session := Some h\<rparr>)")
      have rs: "session rs = Some h" "trace rs = trace r @ [?opn, Time]"
        using t time_now_frame[of vl "?r1\<lparr>session := Some h\<rparr>"] by simp_all
      from inv True have inv': "invoke ?opn (vl_open_bare_resource vl (resource_name r) mode tmo) r
          = (Inr (h, VI_SUCCESS_DEV_NPRESENT K), ?r1)" by simp
      from ret open_resource_not_present[OF inv' t] obtain y where
        l: "retry_loop K vl start rs = Some y" and
        r': "session r' = session (snd y)" "trace r' = trace (snd y)"
        by (auto split: option.splits sum.splits)
      from retry_loop_frame[OF l] have f:
        "session (snd y) = session rs"
        "take (length (trace rs)) (trace (snd y)) = trace rs"
        "filter is_close (calls_since rs (snd y)) = []" by simp_all
      define rest where "rest = calls_since rs (snd y)"
      from f(2) have "trace (snd y) = trace rs @ rest"
        unfolding rest_def calls_since_def by (metis append_take_drop_id)
      then have whole: "trace r' = trace r @ [?opn, Time] @ rest"
        using rs(2) r'(2) by simp
      have "take (Suc (length (trace r))) (trace r') = trace r @ [?opn]"
        and "calls_since r r' = [?opn, Time] @ rest"
        unfolding calls_since_def whole by simp_all
      moreover have "filter is_close rest = []" using f(3) by (simp add: rest_def)
      ultimately show ?thesis using r'(1) f(1) rs(1) by simp
    qed
  qed
  have ends: "st = VI_SUCCESS_DEV_NPRESENT K
          \<and> time_now vl (?r1\<lparr>session := Some h\<rparr>) = (start, rs)
          \<and> retry_run K vl start rs (out, r4) \<longrightarrow>
            open_resource K vl mode tmo r =
              Some (out, case out of Inl e \<Rightarrow> r4 | Inr u \<Rightarrow> r4\<lparr>logging_extra_session := Some h\<rparr>)
            \<and> session r4 = Some h
            \<and> take (Suc (length (trace r))) (trace r4) = trace r @ [?opn]
            \<and> filter is_close (calls_since r r4) = []"
  proof
    assume h: "st = VI_SUCCESS_DEV_NPRESENT K
          \<and> time_now vl (?r1\<lparr>session := Some h\<rparr>) = (start, rs)
          \<and> retry_run K vl start rs (out, r4)"
    then have t: "time_now vl (?r1\<lparr>session := Some h\<rparr>) = (start, rs)" by simp
    from h inv have inv': "invoke ?opn (vl_open_bare_resource vl (resource_name r) mode tmo) r
          = (Inr (h, VI_SUCCESS_DEV_NPRESENT K), ?r1)" by simp
    from h have l: "retry_loop K vl start rs = Some (out, r4)"
      by (simp add: retry_run_returns)
    have rs: "session rs = Some h"
      using t time_now_frame(1)[of vl "?r1\<lparr>session := Some h\<rparr>"] by simp
    from retry_loop_frame[OF l] rs have s4: "session r4 = Some h" by simp
    let ?r5 = "case out of Inl e \<Rightarrow> r4 | Inr u \<Rightarrow> r4\<lparr>logging_extra_session := Some h\<rparr>"
    have ret: "open_resource K vl mode tmo r = Some (out, ?r5)"
      using open_resource_not_present[OF inv' t] l s4 by (cases out) simp_all
    have same: "session ?r5 = session r4" "trace ?r5 = trace r4"
      by (cases out; simp)+
    from any[of out ?r5] ret same s4
    show "open_resource K vl mode tmo r = Some (out, ?r5)
            \<and> session r4 = Some h
            \<and> take (Suc (length (trace r))) (trace r4) = trace r @ [?opn]
            \<and> filter is_close (calls_since r r4) = []"
      by (simp add: calls_since_def)
  qed
  from plain ends any[of res r'] show ?thesis by blast
qed

theorem reopen_overwrites_handle_without_release_witness:
  "session ((stub_resource stub_world0)\<lparr>session := Some 3\<rparr>) = Some 3
   \<and> open_resource visa_constants stub_visalib no_lock (PyNum (PyInt 5000))
        ((stub_resource stub_world0)\<lparr>session := Some 3\<rparr>)
      = Some (Inr (), (stub_resource stub_world0)
          \<lparr>session := Some 7, logging_extra_session := Some 7,
           trace := [OpenBareResource ''GPIB::10'' no_lock (PyNum (PyInt 5000))]\<rparr>)
   \<and> filter is_close (calls_since ((stub_resource stub_world0)\<lparr>session := Some 3\<rparr>)
        ((stub_resource stub_world0)
          \<lparr>session := Some 7, logging_extra_session := Some 7,
           trace := [OpenBareResource ''GPIB::10'' no_lock (PyNum (PyInt 5000))]\<rparr>)) = []
   \<and> open_resource visa_constants stub_visalib no_lock (PyNum (PyInt 5000))
        ((stub_resource
            (stub_not_present [Inl (VisaIOError (VI_ERROR_NLISTENERS visa_constants))]))
           \<lparr>session := Some 3\<rparr>)
      = Some (Inr (), (stub_resource (stub_not_present []))
          \<lparr>session := Some 7, logging_extra_session := Some 7,
           world := (stub_not_present [])\<lparr>clock := 21 / 4\<rparr>,
           trace := [OpenBareResource ''GPIB::10'' no_lock (PyNum (PyInt 5000)), Time,
                     Time, Sleep sleep_time, Clear (Some 7),
                     Time, Sleep sleep_time, Clear (Some 7)]\<rparr>)"
proof -
  let ?K = visa_constants
  let ?vl = stub_visalib
  let ?tmo = "PyNum (PyInt 5000)"
  let ?opn = "OpenBareResource ''GPIB::10'' no_lock ?tmo"
  let ?r = "(stub_resource stub_world0)\<lparr>session := Some 3\<rparr>"
  let ?r' = "(stub_resource stub_world0)
          \<lparr>session := Some 7, logging_extra_session := Some 7, trace := [?opn]\<rparr>"
  note defs = stub_visalib_def stub_resource_def stub_world0_def init_def visa_constants_def
  have ans: "fst (vl_open_bare_resource ?vl (resource_name ?r) no_lock ?tmo (world ?r)) = Inr (7, 0)"
    by (simp add: defs)
  have st: "(0::int) \<noteq> VI_SUCCESS_DEV_NPRESENT ?K"
    by (simp add: defs)
  note inst = reopen_overwrites_handle_without_release
    [OF ans, where K = ?K and res = "Inr ()" and r' = ?r']
  from inst st have o: "open_resource ?K ?vl no_lock ?tmo ?r = Some (Inr (), ?r')"
    by (simp add: defs)
  with inst have nc: "filter is_close (calls_since ?r ?r') = []" by blast
  \<comment> \<open>the device is not present: one pass without listeners, then \<^verbatim>\<open>clear\<close> succeeds\<close>
  note ldefs = stub_visalib_def stub_resource_def stub_not_present_def stub_world0_def init_def
    visa_constants_def invoke_eq time_now_def sleep_def clear_eq stub_clear_def
    float_sub_samples try_time_def
  let ?NL = "Inl (VisaIOError (VI_ERROR_NLISTENERS visa_constants)) :: exn + int"
  let ?c0 = "(stub_resource (stub_not_present [?NL]))\<lparr>session := Some 3\<rparr>"
  let ?cs = "?c0\<lparr>session := Some 7, trace := [?opn, Time]\<rparr>"
  let ?ca = "?c0\<lparr>session := Some 7, trace := [?opn, Time, Time]\<rparr>"
  let ?cb = "?c0\<lparr>session := Some 7, world := (stub_not_present [])\<lparr>clock := 21 / 8\<rparr>,
                 trace := [?opn, Time, Time, Sleep sleep_time, Clear (Some 7)]\<rparr>"
  let ?cc = "?c0\<lparr>session := Some 7, world := (stub_not_present [])\<lparr>clock := 21 / 8\<rparr>,
                 trace := [?opn, Time, Time, Sleep sleep_time, Clear (Some 7), Time]\<rparr>"
  let ?cd = "?c0\<lparr>session := Some 7, world := (stub_not_present [])\<lparr>clock := 21 / 4\<rparr>,
                 trace := [?opn, Time, Time, Sleep sleep_time, Clear (Some 7),
                           Time, Sleep sleep_time, Clear (Some 7)]\<rparr>"
  have c_ans: "fst (vl_open_bare_resource ?vl (resource_name ?c0) no_lock ?tmo (world ?c0))
      = Inr (7, VI_SUCCESS_DEV_NPRESENT ?K)"
    by (simp add: ldefs)
  have c_start: "time_now ?vl
       (?c0\<lparr>world := snd (vl_open_bare_resource ?vl (resource_name ?c0) no_lock ?tmo (world ?c0)),
            trace := trace ?c0 @ [OpenBareResource (resource_name ?c0) no_lock ?tmo],
            session := Some 7\<rparr>) = (0, ?cs)"
    by (simp add: ldefs)
  have c_time1: "time_now ?vl ?cs = (0, ?ca)"
    by (simp add: ldefs)
  have c_clear1: "clear ?vl (sleep ?vl sleep_time ?ca)
      = (Inl (VisaIOError (VI_ERROR_NLISTENERS ?K)), ?cb)"
    by (simp add: ldefs)
  have c_time2: "time_now ?vl ?cb = (21 / 8, ?cc)"
    by (simp add: ldefs)
  have c_clear2: "clear ?vl (sleep ?vl sleep_time ?cc) = (Inr (), ?cd)"
    by (simp add: ldefs)
  have test1: "py_lt_int (float_sub 0 0) try_time"
    by (simp add: float_sub_samples try_time_def)
  have test2: "py_lt_int (float_sub (21 / 8) 0) try_time"
    by (simp add: float_sub_samples try_time_def)
  have c_run: "retry_run ?K ?vl 0 ?cs (Inr (), ?cd)"
    by (rule retry_run.run_again[OF c_time1 test1 c_clear1])
       (rule retry_run.run_cleared[OF c_time2 test2 c_clear2])
  have c: "open_resource ?K ?vl no_lock ?tmo ?c0
      = Some (Inr (), ?cd\<lparr>logging_extra_session := Some 7\<rparr>)"
    using reopen_overwrites_handle_without_release
      [OF c_ans, where K = ?K and start = 0 and rs = ?cs and out = "Inr ()" and ?r4.0 = ?cd]
      c_start c_run
    by simp
  from o nc c show ?thesis by (simp add: defs stub_not_present_def)
qed

text \<open>
  C10. \<^verbatim>\<open>get_visa_attribute\<close>, \<^verbatim>\<open>set_visa_attribute\<close>, \<^verbatim>\<open>clear\<close>,
  \<^verbatim>\<open>lock\<close> and \<^verbatim>\<open>unlock\<close> check nothing locally: on a resource whose handle
  is unset each of them calls the library with the handle \<open>None\<close>, and its outcome is
  the library's outcome for that call (an exception exactly when the library raises
  one). For \<^verbatim>\<open>lock\<close> without a timeout, the call before it is the read of the
  timeout attribute, with the handle \<open>None\<close> as well.
\<close>

theorem unset_handle_is_forwarded:
  "get_visa_attribute vl name (r\<lparr>session := None\<rparr>) =
     (map_sum id fst (fst (vl_get_attribute vl None name (world r))),
      r\<lparr>session := None, world := snd (vl_get_attribute vl None name (world r)),
        trace := trace r @ [GetAttribute None name]\<rparr>)
   \<and> set_visa_attribute vl name v (r\<lparr>session := None\<rparr>) =
     (map_sum id (\<lambda>st. ()) (fst (vl_set_attribute vl None name v (world r))),
      r\<lparr>session := None, world := snd (vl_set_attribute vl None name v (world r)),
        trace := trace r @ [SetAttribute None name v]\<rparr>)
   \<and> clear vl (r\<lparr>session := None\<rparr>) =
     (map_sum id (\<lambda>st. ()) (fst (vl_clear vl None (world r))),
      r\<lparr>session := None, world := snd (vl_clear vl None (world r)),
        trace := trace r @ [Clear None]\<rparr>)
   \<and> unlock vl (r\<lparr>session := None\<rparr>) =
     (map_sum id (\<lambda>st. ()) (fst (vl_unlock vl None (world r))),
      r\<lparr>session := None, world := snd (vl_unlock vl None (world r)),
        trace := trace r @ [Unlock None]\<rparr>)
   \<and> lock K vl tmo key (r\<lparr>session := None\<rparr>) =
     (case (if tmo = PyNone then timeout K vl (r\<lparr>session := None\<rparr>)
            else (Inr tmo, r\<lparr>session := None\<rparr>)) of
        (Inl e, r1) \<Rightarrow> (Inl e, r1)
      | (Inr t, r1) \<Rightarrow>
          (map_sum id fst (fst (vl_lock vl None shared_lock t key (world r1))),
           r1\<lparr>world := snd (vl_lock vl None shared_lock t key (world r1)),
              trace := trace r1 @ [Lock None shared_lock t key]\<rparr>))
   \<and> trace (snd (timeout K vl (r\<lparr>session := None\<rparr>))) =
       trace r @ [GetAttribute None (VI_ATTR_TMO_VALUE K)]"
proof -
  have g: "get_visa_attribute vl name (r\<lparr>session := None\<rparr>) =
     (map_sum id fst (fst (vl_get_attribute vl None name (world r))),
      r\<lparr>session := None, world := snd (vl_get_attribute vl None name (world r)),
        trace := trace r @ [GetAttribute None name]\<rparr>)"
    by (simp add: get_visa_attribute_eq)
  have s: "set_visa_attribute vl name v (r\<lparr>session := None\<rparr>) =
     (map_sum id (\<lambda>st. ()) (fst (vl_set_attribute vl None name v (world r))),
      r\<lparr>session := None, world := snd (vl_set_attribute vl None name v (world r)),
        trace := trace r @ [SetAttribute None name v]\<rparr>)"
    by (simp add: set_visa_attribute_eq)
  have c: "clear vl (r\<lparr>session := None\<rparr>) =
     (map_sum id (\<lambda>st. ()) (fst (vl_clear vl None (world r))),
      r\<lparr>session := None, world := snd (vl_clear vl None (world r)),
        trace := trace r @ [Clear None]\<rparr>)"
    by (simp add: clear_eq)
  have u: "unlock vl (r\<lparr>session := None\<rparr>) =
     (map_sum id (\<lambda>st. ()) (fst (vl_unlock vl None (world r))),
      r\<lparr>session := None, world := snd (vl_unlock vl None (world r)),
        trace := trace r @ [Unlock None]\<rparr>)"
    by (simp add: unlock_eq)
  have l: "lock K vl tmo key (r\<lparr>session := None\<rparr>) =
     (case (if tmo = PyNone then timeout K vl (r\<lparr>session := None\<rparr>)
            else (Inr tmo, r\<lparr>session := None\<rparr>)) of
        (Inl e, r1) \<Rightarrow> (Inl e, r1)
      | (Inr t, r1) \<Rightarrow>
          (map_sum id fst (fst (vl_lock vl None shared_lock t key (world r1))),
           r1\<lparr>world := snd (vl_lock vl None shared_lock t key (world r1)),
              trace := trace r1 @ [Lock None shared_lock t key]\<rparr>))"
    by (simp add: lock_eq cong del: prod.case_cong_weak sum.case_cong_weak if_weak_cong)
  have t: "trace (snd (timeout K vl (r\<lparr>session := None\<rparr>))) =
       trace r @ [GetAttribute None (VI_ATTR_TMO_VALUE K)]"
    by (simp add: timeout_frame)
  from g s c u l t show ?thesis by blast
qed

end
